theory Spec2Isabelle
  imports Main
begin

text \<open>
  The document assembly engine of DocumentTemplateGenerator: the template helpers
  (\<^verbatim>\<open>getNestedValue\<close>, \<^verbatim>\<open>renderTemplate\<close>, \<^verbatim>\<open>evaluateCondition\<close>), the form's own
  \<^verbatim>\<open>evaluateConditional\<close>, the generation of the document and of its preview
  (\<^verbatim>\<open>documentGenerator.js\<close>) and \<^verbatim>\<open>validateUserData\<close>, as functions of HOL, followed by
  the properties of the specification that they have, and those they do not have.
\<close>

section \<open>Results\<close>

text \<open>
  A function of the code returns a value or throws. \<open>InvalidStructureJSON\<close> is the error
  that \<^verbatim>\<open>generateFromStructure\<close> throws itself; \<open>TypeError\<close> is the error of the language: a
  property read from \<open>null\<close>, a call of what is not a function, a loop over what cannot be
  iterated, a conversion of an object that has no usable \<open>toString\<close>.

  \<open>Outside\<close> is not a result of the code. A function of this model gives it where the
  code's result depends on something that is not modelled: a number that is not an
  integer of at most 53 bits, a property inherited from a prototype, the length or order
  of a string that is not ASCII, a numeric string that is not a plain integer. A result
  \<open>Outside\<close> says nothing about the code; every other result is the code's result.
  The operations are written in the order in which the code evaluates them, so that the
  first error of the model is the first error of the code.
\<close>

datatype error = InvalidStructureJSON | TypeError | Outside

definition and_then :: "error + 'a \<Rightarrow> ('a \<Rightarrow> error + 'b) \<Rightarrow> error + 'b" where
  "and_then r f = (case r of Inl e \<Rightarrow> Inl e | Inr x \<Rightarrow> f x)"

fun traverse :: "('a \<Rightarrow> error + 'b) \<Rightarrow> 'a list \<Rightarrow> error + 'b list" where
  "traverse f [] = Inr []"
| "traverse f (x # xs) =
     (case f x of
        Inl e \<Rightarrow> Inl e
      | Inr y \<Rightarrow> (case traverse f xs of Inl e \<Rightarrow> Inl e | Inr ys \<Rightarrow> Inr (y # ys)))"

lemma and_then_simps [simp]:
  "and_then (Inl e) f = Inl e" "and_then (Inr x) f = f x"
  by (simp_all add: and_then_def)

lemma and_then_cong [fundef_cong]:
  "r = r' \<Longrightarrow> (\<And>x. r' = Inr x \<Longrightarrow> f x = f' x) \<Longrightarrow> and_then r f = and_then r' f'"
  by (cases r') (simp_all add: and_then_def)

lemma traverse_cong [fundef_cong]:
  "xs = ys \<Longrightarrow> (\<And>x. x \<in> set ys \<Longrightarrow> f x = g x) \<Longrightarrow> traverse f xs = traverse g ys"
  by (induction ys arbitrary: xs) (auto split: sum.splits)

section \<open>JavaScript values\<close>

text \<open>
  The data record, the content library and the operands of conditions are parsed JSON.
  A value is one of the JSON kinds, \<open>undefined\<close> (what a missing property reads as), or a
  function: the \<open>formatDate\<close> helper that document generation merges into the data
  record, kept by its source text, which is what \<open>String\<close> of it gives. A number is an
  integer; the code holds it exactly when its magnitude is at most \<open>2^53\<close>, and a number
  beyond that is outside the model. A string is the list of the bytes of its UTF-8 text.
  An object is the list of its own properties, the first binding of a key being its
  value.
\<close>

datatype jsval =
    JUndefined
  | JNull
  | JBool bool
  | JNum int
  | JStr string
  | JArr "jsval list"
  | JObj "(string \<times> jsval) list"
  | JFun string

definition safe :: "int \<Rightarrow> bool" where
  "safe n = (- 9007199254740992 \<le> n \<and> n \<le> 9007199254740992)"

definition ascii :: "string \<Rightarrow> bool" where
  "ascii s = list_all (\<lambda>c. (of_char c :: nat) < 128) s"

text \<open>What \<open>if (v)\<close>, \<open>!v\<close>, \<open>a || b\<close> and \<open>a && b\<close> test.\<close>

fun truthy :: "jsval \<Rightarrow> bool" where
  "truthy JUndefined = False"
| "truthy JNull = False"
| "truthy (JBool b) = b"
| "truthy (JNum n) = (n \<noteq> 0)"
| "truthy (JStr s) = (s \<noteq> [])"
| "truthy (JArr xs) = True"
| "truthy (JObj kvs) = True"
| "truthy (JFun src) = True"

definition js_or :: "jsval \<Rightarrow> jsval \<Rightarrow> jsval" where
  "js_or a b = (if truthy a then a else b)"

definition isArray :: "jsval \<Rightarrow> bool" where
  "isArray v = (case v of JArr xs \<Rightarrow> True | _ \<Rightarrow> False)"

subsection \<open>Conversion to string\<close>

definition digit_char :: "nat \<Rightarrow> char" where
  "digit_char d = ''0123456789'' ! d"

fun nat_digits :: "nat \<Rightarrow> string" where
  "nat_digits n = (if n < 10 then [digit_char n] else nat_digits (n div 10) @ [digit_char (n mod 10)])"

declare nat_digits.simps [simp del]

definition num_str :: "int \<Rightarrow> string" where
  "num_str i = (if i < 0 then CHR ''-'' # nat_digits (nat (- i)) else nat_digits (nat i))"

fun join_comma :: "string list \<Rightarrow> string" where
  "join_comma [] = []"
| "join_comma [x] = x"
| "join_comma (x # y # ys) = x @ '','' @ join_comma (y # ys)"

text \<open>
  The conversion of an object to a primitive calls its \<open>toString\<close> and its \<open>valueOf\<close>,
  in the order the conversion asks for, and takes the first result that is not an
  object. An object without a key \<open>toString\<close> of its own inherits the one that returns
  \<open>[object Object]\<close>; the inherited \<open>valueOf\<close> returns the object itself, which is no
  result. A key \<open>toString\<close> or \<open>valueOf\<close> of its own holds a JSON value, which cannot be
  called, and is passed over; when nothing is left, the conversion is a type error. A
  function under such a key would be called: that is outside the model.
\<close>

definition object_to_string :: "(string \<times> jsval) list \<Rightarrow> error + string" where
  "object_to_string kvs =
     (case map_of kvs ''toString'' of
        None \<Rightarrow> Inr ''[object Object]''
      | Some (JFun f) \<Rightarrow> Inl Outside
      | Some v \<Rightarrow>
          (case map_of kvs ''valueOf'' of
             Some (JFun g) \<Rightarrow> Inl Outside
           | _ \<Rightarrow> Inl TypeError))"

text \<open>
  \<open>String(v)\<close>, which is also the conversion that a template literal, the argument of
  \<open>includes\<close> and the result of a \<open>replace\<close> callback go through. An array is its
  elements joined by commas, each converted in turn, with \<open>null\<close> and \<open>undefined\<close>
  written as the empty string.
\<close>

fun js_String :: "jsval \<Rightarrow> error + string" where
  "js_String JUndefined = Inr ''undefined''"
| "js_String JNull = Inr ''null''"
| "js_String (JBool b) = Inr (if b then ''true'' else ''false'')"
| "js_String (JNum n) = (if safe n then Inr (num_str n) else Inl Outside)"
| "js_String (JStr s) = Inr s"
| "js_String (JArr xs) =
     and_then
       (traverse (\<lambda>x. if x = JUndefined \<or> x = JNull then Inr [] else js_String x) xs)
       (\<lambda>parts. Inr (join_comma parts))"
| "js_String (JObj kvs) = object_to_string kvs"
| "js_String (JFun src) = Inr src"

subsection \<open>Strings\<close>

text \<open>
  The white space that \<open>trim\<close> strips, as UTF-8: the tab, the line feed, the vertical
  tab, the form feed, the carriage return, the space, U+00A0, U+1680, U+2000 to U+200A,
  U+2028, U+2029, U+202F, U+205F, U+3000 and U+FEFF.
\<close>

definition white_space :: "string list" where
  "white_space =
     [[CHR 0x09], [CHR 0x0A], [CHR 0x0B], [CHR 0x0C], [CHR 0x0D], [CHR 0x20],
      [CHR 0xC2, CHR 0xA0], [CHR 0xE1, CHR 0x9A, CHR 0x80],
      [CHR 0xE2, CHR 0x80, CHR 0x80], [CHR 0xE2, CHR 0x80, CHR 0x81],
      [CHR 0xE2, CHR 0x80, CHR 0x82], [CHR 0xE2, CHR 0x80, CHR 0x83],
      [CHR 0xE2, CHR 0x80, CHR 0x84], [CHR 0xE2, CHR 0x80, CHR 0x85],
      [CHR 0xE2, CHR 0x80, CHR 0x86], [CHR 0xE2, CHR 0x80, CHR 0x87],
      [CHR 0xE2, CHR 0x80, CHR 0x88], [CHR 0xE2, CHR 0x80, CHR 0x89],
      [CHR 0xE2, CHR 0x80, CHR 0x8A], [CHR 0xE2, CHR 0x80, CHR 0xA8],
      [CHR 0xE2, CHR 0x80, CHR 0xA9], [CHR 0xE2, CHR 0x80, CHR 0xAF],
      [CHR 0xE2, CHR 0x81, CHR 0x9F], [CHR 0xE3, CHR 0x80, CHR 0x80],
      [CHR 0xEF, CHR 0xBB, CHR 0xBF]]"

text \<open>\<open>s.startsWith(p)\<close>.\<close>

definition startsWith :: "string \<Rightarrow> string \<Rightarrow> bool" where
  "startsWith s p = (take (length p) s = p)"

text \<open>
  The string without the white space it starts with: while one of the sequences \<open>ws\<close>
  is at its head, that sequence is dropped.
\<close>

function strip_head :: "string list \<Rightarrow> string \<Rightarrow> string" where
  "strip_head ws s =
     (case find (\<lambda>w. w \<noteq> [] \<and> startsWith s w) ws of
        None \<Rightarrow> s
      | Some w \<Rightarrow> strip_head ws (drop (length w) s))"
  by pat_completeness auto
termination
proof (relation "measure (\<lambda>(ws, s). length s)")
  show "wf (measure (\<lambda>(ws, s). length s))" by simp
next
  fix ws :: "string list" and s w :: string
  assume "find (\<lambda>w. w \<noteq> [] \<and> startsWith s w) ws = Some w"
  then have "w \<noteq> [] \<and> startsWith s w" by (auto simp: find_Some_iff)
  then have "w \<noteq> []" and "take (length w) s = w" by (simp_all add: startsWith_def)
  then have "s \<noteq> []" by auto
  with \<open>w \<noteq> []\<close> show "((ws, drop (length w) s), (ws, s)) \<in> measure (\<lambda>(ws, s). length s)"
    by (cases s; cases w) simp_all
qed

declare strip_head.simps [simp del]

text \<open>
  \<open>s.trim()\<close>: the white space is stripped at the head, and at the end, where the
  sequences are read backwards.
\<close>

definition trim :: "string \<Rightarrow> string" where
  "trim s = rev (strip_head (map rev white_space) (rev (strip_head white_space s)))"

text \<open>\<open>s.includes(sub)\<close>: \<open>sub\<close> occurs in \<open>s\<close> as a contiguous run.\<close>

fun str_includes :: "string \<Rightarrow> string \<Rightarrow> bool" where
  "str_includes [] sub = (sub = [])"
| "str_includes (c # cs) sub = (startsWith (c # cs) sub \<or> str_includes cs sub)"

text \<open>\<open>s.split('.')\<close>.\<close>

fun split_dot :: "string \<Rightarrow> string list" where
  "split_dot [] = [[]]"
| "split_dot (c # cs) =
     (if c = CHR ''.'' then [] # split_dot cs
      else (case split_dot cs of [] \<Rightarrow> [[c]] | h # t \<Rightarrow> (c # h) # t))"

text \<open>The order of \<open><\<close> on two ASCII strings: by the first character that differs.\<close>

fun str_less :: "string \<Rightarrow> string \<Rightarrow> bool" where
  "str_less [] [] = False"
| "str_less [] (y # ys) = True"
| "str_less (x # xs) [] = False"
| "str_less (x # xs) (y # ys) =
     (if (of_char x :: nat) < of_char y then True
      else if x = y then str_less xs ys else False)"

subsection \<open>Property access\<close>

definition is_digit :: "char \<Rightarrow> bool" where
  "is_digit c = (c \<in> set ''0123456789'')"

definition digits_val :: "string \<Rightarrow> nat" where
  "digits_val ds = foldl (\<lambda>a c. 10 * a + (of_char c - 48)) 0 ds"

text \<open>A key is an index when it is the decimal numeral of a number: no sign, no leading zero.\<close>

definition parse_index :: "string \<Rightarrow> nat option" where
  "parse_index k =
     (if k \<noteq> [] \<and> list_all is_digit k \<and> (k = ''0'' \<or> hd k \<noteq> CHR ''0'')
      then Some (digits_val k) else None)"

text \<open>The properties that every object inherits from \<open>Object.prototype\<close>.\<close>

definition object_prototype_keys :: "string list" where
  "object_prototype_keys =
     [''constructor'', ''__defineGetter__'', ''__defineSetter__'', ''hasOwnProperty'',
      ''__lookupGetter__'', ''__lookupSetter__'', ''isPrototypeOf'', ''propertyIsEnumerable'',
      ''toString'', ''valueOf'', ''__proto__'', ''toLocaleString'']"

text \<open>
  \<open>current?.[key]\<close>. It is \<open>undefined\<close> on \<open>null\<close> and \<open>undefined\<close>. On an object it is
  the own property of that key; without one, it is \<open>undefined\<close> unless the key is
  inherited, and an inherited property is outside the model. On an array it is the
  length or the element of an index, \<open>undefined\<close> past the end; on an ASCII string, the
  length or the character of an index. Every other read, of a method of an array, or of
  anything on a number, a boolean, a function or a string that is not ASCII, is left
  outside the model.
\<close>

fun get_prop :: "jsval \<Rightarrow> string \<Rightarrow> error + jsval" where
  "get_prop JUndefined k = Inr JUndefined"
| "get_prop JNull k = Inr JUndefined"
| "get_prop (JObj kvs) k =
     (case map_of kvs k of
        Some v \<Rightarrow> Inr v
      | None \<Rightarrow> if k \<in> set object_prototype_keys then Inl Outside else Inr JUndefined)"
| "get_prop (JArr xs) k =
     (if k = ''length'' then Inr (JNum (int (length xs)))
      else (case parse_index k of
              Some i \<Rightarrow> Inr (if i < length xs then xs ! i else JUndefined)
            | None \<Rightarrow> Inl Outside))"
| "get_prop (JStr s) k =
     (if \<not> ascii s then Inl Outside
      else if k = ''length'' then Inr (JNum (int (length s)))
      else (case parse_index k of
              Some i \<Rightarrow> Inr (if i < length s then JStr [s ! i] else JUndefined)
            | None \<Rightarrow> Inl Outside))"
| "get_prop (JBool b) k = Inl Outside"
| "get_prop (JNum n) k = Inl Outside"
| "get_prop (JFun src) k = Inl Outside"

text \<open>The own property of a key that no object inherits, such as \<open>blocks\<close>.\<close>

definition own_prop :: "(string \<times> jsval) list \<Rightarrow> string \<Rightarrow> jsval" where
  "own_prop kvs k = (case map_of kvs k of Some v \<Rightarrow> v | None \<Rightarrow> JUndefined)"

subsection \<open>Equality and comparison\<close>

text \<open>A number that the code does not hold exactly.\<close>

definition beyond :: "jsval \<Rightarrow> bool" where
  "beyond v = (case v of JNum n \<Rightarrow> \<not> safe n | _ \<Rightarrow> False)"

text \<open>
  \<open>a === b\<close> for a value of the data record against a value of a condition: primitives
  are equal when they are the same value; an object, an array or a function is equal
  only to itself, and the two sides come from different documents, so they never are.
\<close>

definition strict_equals :: "jsval \<Rightarrow> jsval \<Rightarrow> error + bool" where
  "strict_equals a b =
     (if beyond a \<or> beyond b then Inl Outside
      else Inr (case a of JArr xs \<Rightarrow> False | JObj kvs \<Rightarrow> False | JFun src \<Rightarrow> False | _ \<Rightarrow> a = b))"

text \<open>
  The conversion to a primitive that the relational operators and \<open>isNaN\<close> apply: of an
  object, \<open>valueOf\<close> before \<open>toString\<close>; of an array, its string; of a function, its text.
\<close>

definition object_to_primitive :: "(string \<times> jsval) list \<Rightarrow> error + jsval" where
  "object_to_primitive kvs =
     (case map_of kvs ''valueOf'' of
        Some (JFun g) \<Rightarrow> Inl Outside
      | _ \<Rightarrow>
          (case map_of kvs ''toString'' of
             None \<Rightarrow> Inr (JStr ''[object Object]'')
           | Some (JFun f) \<Rightarrow> Inl Outside
           | Some v \<Rightarrow> Inl TypeError))"

definition to_primitive :: "jsval \<Rightarrow> error + jsval" where
  "to_primitive v =
     (case v of
        JObj kvs \<Rightarrow> object_to_primitive kvs
      | JArr xs \<Rightarrow> and_then (js_String v) (\<lambda>s. Inr (JStr s))
      | JFun src \<Rightarrow> Inr (JStr src)
      | _ \<Rightarrow> Inr v)"

text \<open>
  The number of a string. \<open>None\<close> is NaN. White space around the text is ignored and
  the empty text is 0; a signed decimal integer of at most 53 bits is that number; a text
  without any digit, other than \<open>Infinity\<close>, is NaN. Any other text, with a fraction, an
  exponent, a radix prefix or more digits, is outside the model.
\<close>

definition str_to_number :: "string \<Rightarrow> error + int option" where
  "str_to_number s =
     (let t = trim s in
      if t = [] then Inr (Some 0)
      else if list_all is_digit t then
        (if safe (int (digits_val t)) then Inr (Some (int (digits_val t))) else Inl Outside)
      else if (hd t = CHR ''-'' \<or> hd t = CHR ''+'') \<and> tl t \<noteq> [] \<and> list_all is_digit (tl t) then
        (if safe (int (digits_val (tl t)))
         then Inr (Some (if hd t = CHR ''-'' then - int (digits_val (tl t)) else int (digits_val (tl t))))
         else Inl Outside)
      else if \<not> list_ex is_digit t \<and> t \<notin> set [''Infinity'', ''+Infinity'', ''-Infinity'']
      then Inr None
      else Inl Outside)"

text \<open>The number of a primitive.\<close>

definition to_number :: "jsval \<Rightarrow> error + int option" where
  "to_number p =
     (case p of
        JUndefined \<Rightarrow> Inr None
      | JNull \<Rightarrow> Inr (Some 0)
      | JBool b \<Rightarrow> Inr (Some (if b then 1 else 0))
      | JNum n \<Rightarrow> if safe n then Inr (Some n) else Inl Outside
      | JStr s \<Rightarrow> str_to_number s
      | _ \<Rightarrow> Inl Outside)"

text \<open>
  The comparison of two primitives: two strings by their characters, any other pair by
  their numbers. A comparison with NaN is false, whatever the other number is.
\<close>

definition prim_less :: "jsval \<Rightarrow> jsval \<Rightarrow> error + bool" where
  "prim_less pa pb =
     (case (pa, pb) of
        (JStr s, JStr t) \<Rightarrow> if ascii s \<and> ascii t then Inr (str_less s t) else Inl Outside
      | _ \<Rightarrow>
          (case (to_number pa, to_number pb) of
             (Inr None, nb) \<Rightarrow> Inr False
           | (na, Inr None) \<Rightarrow> Inr False
           | (Inr (Some m), Inr (Some n)) \<Rightarrow> Inr (m < n)
           | _ \<Rightarrow> Inl Outside))"

text \<open>\<open>a < b\<close> and \<open>a > b\<close>: the left operand is converted first in both.\<close>

definition js_less :: "jsval \<Rightarrow> jsval \<Rightarrow> error + bool" where
  "js_less a b =
     and_then (to_primitive a) (\<lambda>pa. and_then (to_primitive b) (\<lambda>pb. prim_less pa pb))"

definition js_greater :: "jsval \<Rightarrow> jsval \<Rightarrow> error + bool" where
  "js_greater a b =
     and_then (to_primitive a) (\<lambda>pa. and_then (to_primitive b) (\<lambda>pb. prim_less pb pa))"


text \<open>\<open>xs.includes(v)\<close> on an array: the elements are compared in turn.\<close>

fun array_includes :: "jsval list \<Rightarrow> jsval \<Rightarrow> error + bool" where
  "array_includes [] v = Inr False"
| "array_includes (x # xs) v =
     and_then (strict_equals x v) (\<lambda>same. if same then Inr True else array_includes xs v)"

section \<open>Template helpers\<close>

text \<open>
  \<^verbatim>\<open>getNestedValue(obj, path)\<close>: \<open>undefined\<close> for the empty path, else the path's keys
  read one after the other, starting from \<open>obj\<close>.
\<close>

fun get_path :: "jsval \<Rightarrow> string list \<Rightarrow> error + jsval" where
  "get_path current [] = Inr current"
| "get_path current (key # keys) = and_then (get_prop current key) (\<lambda>v. get_path v keys)"

definition getNestedValue :: "jsval \<Rightarrow> string \<Rightarrow> error + jsval" where
  "getNestedValue obj path = (if path = [] then Inr JUndefined else get_path obj (split_dot path))"

subsection \<open>Placeholders\<close>

text \<open>
  The pattern \<^verbatim>\<open>/{{([^}]+)}}/g\<close> at the head of a string: two opening braces, the longest
  run of characters other than a closing brace, which must not be empty, and two closing
  braces. The result is the matched text, the captured run and what follows the match.
\<close>

definition match_placeholder :: "string \<Rightarrow> (string \<times> string \<times> string) option" where
  "match_placeholder s =
     (case s of
        c1 # c2 # t \<Rightarrow>
          if c1 = CHR ''{'' \<and> c2 = CHR ''{'' then
            (let p = takeWhile (\<lambda>c. c \<noteq> CHR ''}'') t;
                 r = dropWhile (\<lambda>c. c \<noteq> CHR ''}'') t
             in if p \<noteq> [] \<and> take 2 r = ''}}'' then Some (''{{'' @ p @ ''}}'', p, drop 2 r)
                else None)
          else None
      | _ \<Rightarrow> None)"

datatype token = Lit char | Placeholder string string

lemma match_placeholder_shorter:
  "match_placeholder s = Some (m, p, rest) \<Longrightarrow> length rest < length s"
proof -
  assume a: "match_placeholder s = Some (m, p, rest)"
  then obtain t where s: "s = CHR ''{'' # CHR ''{'' # t"
    and r: "rest = drop 2 (dropWhile (\<lambda>c. c \<noteq> CHR ''}'') t)"
    by (auto simp: match_placeholder_def Let_def split: list.splits if_splits)
  have "length (dropWhile (\<lambda>c. c \<noteq> CHR ''}'') t) \<le> length t"
    by (rule length_dropWhile_le)
  with s r show ?thesis by simp
qed

text \<open>
  The global search of \<open>replace\<close>: the matches from left to right, without overlap, and
  the characters between them.
\<close>

function scan :: "string \<Rightarrow> token list" where
  "scan [] = []"
| "scan (c # cs) =
     (case match_placeholder (c # cs) of
        Some (m, p, rest) \<Rightarrow> Placeholder m p # scan rest
      | None \<Rightarrow> Lit c # scan cs)"
  by pat_completeness auto
termination
  by (relation "measure length") (auto dest: match_placeholder_shorter)

declare scan.simps(2) [simp del]

text \<open>
  The callback of \<^verbatim>\<open>renderTemplate\<close>: a path under \<open>boilerplate.\<close> is read in the boilerplate
  mapping, any other path in the data record, and \<open>undefined\<close> gives the match back.
\<close>

definition replacer :: "jsval \<Rightarrow> jsval \<Rightarrow> string \<Rightarrow> string \<Rightarrow> error + jsval" where
  "replacer data boilerplate match path =
     (let trimmedPath = trim path in
      if startsWith trimmedPath ''boilerplate.'' then
        and_then (getNestedValue boilerplate (drop 12 trimmedPath))
          (\<lambda>v. Inr (if v \<noteq> JUndefined then v else JStr match))
      else
        and_then (getNestedValue data trimmedPath)
          (\<lambda>v. Inr (if v \<noteq> JUndefined then v else JStr match)))"

text \<open>What \<open>replace\<close> puts for a token: the value of the callback, converted to a string.\<close>

definition replace_token :: "jsval \<Rightarrow> jsval \<Rightarrow> token \<Rightarrow> error + string" where
  "replace_token data boilerplate tok =
     (case tok of
        Lit c \<Rightarrow> Inr [c]
      | Placeholder m p \<Rightarrow> and_then (replacer data boilerplate m p) js_String)"

text \<open>The default of a parameter declared as \<^verbatim>\<open>boilerplate = {}\<close>.\<close>

definition or_empty_object :: "jsval \<Rightarrow> jsval" where
  "or_empty_object v = (if v = JUndefined then JObj [] else v)"

text \<open>
  \<^verbatim>\<open>renderTemplate(template, data, boilerplate = {})\<close>. A template that is falsy or not a
  string is returned as it is. The matches are replaced from left to right; the
  conversion of a value to a string is what can raise.
\<close>

definition renderTemplate :: "jsval \<Rightarrow> jsval \<Rightarrow> jsval \<Rightarrow> error + jsval" where
  "renderTemplate template data boilerplate =
     (case template of
        JStr t \<Rightarrow>
          if t = [] then Inr template
          else and_then (traverse (replace_token data (or_empty_object boilerplate)) (scan t))
                 (\<lambda>parts. Inr (JStr (concat parts)))
      | _ \<Rightarrow> Inr template)"

subsection \<open>Conditions\<close>

text \<open>
  A condition \<^verbatim>\<open>{field, operator, value}\<close>. The field is a field id, a string, or is
  absent; an operator that is absent or not a string behaves as an unknown operator.
\<close>

record condition =
  c_field :: "string option"
  c_operator :: string
  c_value :: jsval

text \<open>\<^verbatim>\<open>String(a).includes(b)\<close>: \<open>a\<close> is converted, then \<open>b\<close>.\<close>

definition string_includes :: "jsval \<Rightarrow> jsval \<Rightarrow> error + bool" where
  "string_includes a b =
     and_then (js_String a) (\<lambda>s. and_then (js_String b) (\<lambda>sub. Inr (str_includes s sub)))"

definition negate :: "error + bool \<Rightarrow> error + bool" where
  "negate r = and_then r (\<lambda>b. Inr (\<not> b))"

definition evaluateCondition :: "condition option \<Rightarrow> jsval \<Rightarrow> error + bool" where
  "evaluateCondition condition data =
     (case condition of
        None \<Rightarrow> Inr True
      | Some c \<Rightarrow>
          (case c_field c of
             None \<Rightarrow> Inr True
           | Some field \<Rightarrow>
               if field = [] then Inr True
               else
                 and_then (getNestedValue data field) (\<lambda>fieldValue.
                   (let v = c_value c; operator = c_operator c
                    in if operator = ''equals'' then strict_equals fieldValue v
                       else if operator = ''not_equals'' then negate (strict_equals fieldValue v)
                       else if operator = ''greater_than'' then js_greater fieldValue v
                       else if operator = ''less_than'' then js_less fieldValue v
                       else if operator = ''contains'' then
                         (case fieldValue of
                            JArr xs \<Rightarrow> array_includes xs v
                          | _ \<Rightarrow> string_includes fieldValue v)
                       else if operator = ''not_contains'' then
                         (case fieldValue of
                            JArr xs \<Rightarrow> negate (array_includes xs v)
                          | _ \<Rightarrow> negate (string_includes fieldValue v))
                       else Inr True))))"

text \<open>
  The form's own evaluator, \<^verbatim>\<open>evaluateConditional\<close> of FormRenderer, over the form data it
  watches. It reads the field as one key of the form data.
\<close>

record conditional =
  show_when :: "condition option"

definition evaluateConditional :: "(string \<times> jsval) list \<Rightarrow> conditional option \<Rightarrow> error + bool" where
  "evaluateConditional formData cl =
     (case cl of
        None \<Rightarrow> Inr True
      | Some c \<Rightarrow>
          (case show_when c of
             None \<Rightarrow> Inr True
           | Some sw \<Rightarrow>
               and_then
                 (get_prop (JObj formData)
                    (case c_field sw of None \<Rightarrow> ''undefined'' | Some f \<Rightarrow> f))
                 (\<lambda>fieldValue.
                   (let v = c_value sw; operator = c_operator sw
                    in if operator = ''equals'' then strict_equals fieldValue v
                       else if operator = ''not_equals'' then negate (strict_equals fieldValue v)
                       else if operator = ''contains'' then
                         (case fieldValue of
                            JArr xs \<Rightarrow> array_includes xs v
                          | _ \<Rightarrow> string_includes (js_or fieldValue (JStr [])) v)
                       else Inr True))))"

section \<open>Document generation\<close>

subsection \<open>The structure skeleton\<close>

text \<open>
  The structure is typed as the schema of the templates gives it. A heading has a text
  template and maybe a level. A content item carries its type tag and the properties the
  generator reads: \<open>condition\<close>, \<open>template\<close> and \<open>text\<close> (\<open>undefined\<close> when absent),
  \<open>headers\<close>, \<open>loop\<close>, \<open>rows\<close> (\<open>undefined\<close> when absent; a list of cell templates for a
  loop, a list of rows of cell definitions otherwise), \<open>source\<close>, \<open>emptyRows\<close> (0 when
  absent) and \<open>content\<close> (empty when absent, as \<^verbatim>\<open>item.content || []\<close> reads it).
  The paragraph's alignment and spacing and the table's width and borders are layout
  and are left out of the tree.
\<close>

record heading =
  h_text :: jsval
  h_level :: "nat option"

datatype item =
  Item (i_type: string) (i_condition: "condition option") (i_template: jsval) (i_text: jsval)
       (i_headers: "jsval list option") (i_loop: "string option") (i_rows: jsval)
       (i_source: "string option") (i_emptyRows: nat) (i_content: "item list")

record struct_section =
  s_type :: string
  s_heading :: "heading option"
  s_content :: "item list"

record structureJson =
  sections :: "struct_section list option"

text \<open>\<open>if (s)\<close> on an optional string: present and not empty.\<close>

definition truthy_str :: "string option \<Rightarrow> bool" where
  "truthy_str s = (case s of None \<Rightarrow> False | Some t \<Rightarrow> t \<noteq> [])"

text \<open>\<^verbatim>\<open>contentJson.blocks\<close>.\<close>

definition blocks :: "(string \<times> jsval) list \<Rightarrow> jsval" where
  "blocks contentJson = own_prop contentJson ''blocks''"

subsection \<open>The document tree\<close>

text \<open>
  What is handed to the word-processing library: per section the list of its children,
  a heading paragraph (text and level), a paragraph or a table of rows of cells. A cell
  has its text, whether it is bold and whether it is shaded; a row says whether it is
  the header row.
\<close>

datatype docx_cell = TableCell string bool bool

datatype docx_row = TableRow "docx_cell list" bool

datatype docx_el = Heading jsval nat | Paragraph jsval | Table "docx_row list"

subsection \<open>Tables\<close>

text \<open>The header row, when headers are defined: each header converted to a string.\<close>

definition header_rows :: "jsval list option \<Rightarrow> error + docx_row list" where
  "header_rows headers =
     (case headers of
        None \<Rightarrow> Inr []
      | Some hs \<Rightarrow>
          and_then (traverse js_String hs)
            (\<lambda>texts. Inr [TableRow (map (\<lambda>t. TableCell t True True) texts) True]))"

text \<open>\<^verbatim>\<open>item.loop.replace(/[{}#/]/g, '').trim()\<close> and \<^verbatim>\<open>item.source.replace(/[{}]/g, '').trim()\<close>.\<close>

definition loopPath :: "string \<Rightarrow> string" where
  "loopPath l = trim (filter (\<lambda>c. c \<notin> set ''{}#/'') l)"

definition sourcePath :: "string \<Rightarrow> string" where
  "sourcePath s = trim (filter (\<lambda>c. c \<notin> set ''{}'') s)"

text \<open>One cell of a loop table: the template rendered against the element, as a string.\<close>

definition loop_cell :: "jsval \<Rightarrow> jsval \<Rightarrow> jsval \<Rightarrow> error + docx_cell" where
  "loop_cell boilerplate rowData template =
     and_then (renderTemplate template rowData boilerplate) (\<lambda>text.
     and_then (js_String text) (\<lambda>s. Inr (TableCell s False False)))"

text \<open>
  One row of a loop table: every cell template of \<open>rows\<close>, in turn.
  \<^verbatim>\<open>(item.rows || []).map\<close> is a type error on a truthy value that is not an array.
\<close>

definition loop_row :: "jsval \<Rightarrow> jsval \<Rightarrow> jsval \<Rightarrow> error + docx_row" where
  "loop_row rows boilerplate rowData =
     (case js_or rows (JArr []) of
        JArr templates \<Rightarrow>
          and_then (traverse (loop_cell boilerplate rowData) templates)
            (\<lambda>cells. Inr (TableRow cells False))
      | _ \<Rightarrow> Inl TypeError)"

text \<open>One row of a boilerplate table: \<open>rowData.map\<close> needs an array.\<close>

definition source_row :: "jsval \<Rightarrow> error + docx_row" where
  "source_row rowData =
     (case rowData of
        JArr cells \<Rightarrow>
          and_then (traverse js_String cells)
            (\<lambda>texts. Inr (TableRow (map (\<lambda>t. TableCell t False False) texts) False))
      | _ \<Rightarrow> Inl TypeError)"

text \<open>
  One cell of an inline table. \<open>cellDef.template\<close> is a type error on \<open>null\<close> and
  \<open>undefined\<close>; the text is rendered and converted before \<open>bold\<close> is read.
\<close>

definition static_cell :: "jsval \<Rightarrow> jsval \<Rightarrow> jsval \<Rightarrow> error + docx_cell" where
  "static_cell userData boilerplate cellDef =
     (if cellDef = JNull \<or> cellDef = JUndefined then Inl TypeError
      else
        and_then (get_prop cellDef ''template'') (\<lambda>template.
        and_then (if truthy template then Inr template else get_prop cellDef ''text'') (\<lambda>t.
        and_then (renderTemplate (js_or t (JStr [])) userData boilerplate) (\<lambda>text.
        and_then (js_String text) (\<lambda>s.
        and_then (get_prop cellDef ''bold'') (\<lambda>bold.
          Inr (TableCell s (truthy bold) False)))))))"

definition static_row :: "jsval \<Rightarrow> jsval \<Rightarrow> jsval \<Rightarrow> error + docx_row" where
  "static_row userData boilerplate rowDef =
     (case rowDef of
        JArr cellDefs \<Rightarrow>
          and_then (traverse (static_cell userData boilerplate) cellDefs)
            (\<lambda>cells. Inr (TableRow cells False))
      | _ \<Rightarrow> Inl TypeError)"

text \<open>\<^verbatim>\<open>item.headers?.length || 3\<close>.\<close>

definition columnCount :: "jsval list option \<Rightarrow> nat" where
  "columnCount headers =
     (case headers of None \<Rightarrow> 3 | Some hs \<Rightarrow> if length hs = 0 then 3 else length hs)"

text \<open>
  The body rows of \<^verbatim>\<open>createTable\<close>, by the first of the four modes that applies. A
  \<open>for ... of\<close> over a truthy value that is not an array ends in a type error: a number
  or an object cannot be iterated, and the characters of a string have no \<open>map\<close>.
\<close>

definition body_rows :: "item \<Rightarrow> jsval \<Rightarrow> (string \<times> jsval) list \<Rightarrow> error + docx_row list" where
  "body_rows item userData contentJson =
     (if truthy_str (i_loop item) then
        and_then (getNestedValue userData (loopPath (the (i_loop item)))) (\<lambda>dataArray.
          (case dataArray of
             JArr elements \<Rightarrow> traverse (loop_row (i_rows item) (blocks contentJson)) elements
           | _ \<Rightarrow> Inr []))
      else if truthy_str (i_source item) then
        and_then (getNestedValue (JObj contentJson) (sourcePath (the (i_source item)))) (\<lambda>tableData.
          if truthy tableData then
            and_then (get_prop tableData ''defaultRows'') (\<lambda>defaultRows.
              if truthy defaultRows then
                (case defaultRows of
                   JArr rows \<Rightarrow> traverse source_row rows
                 | _ \<Rightarrow> Inl TypeError)
              else Inr [])
          else Inr [])
      else if truthy (i_rows item) then
        (case i_rows item of
           JArr rowDefs \<Rightarrow> traverse (static_row userData (blocks contentJson)) rowDefs
         | _ \<Rightarrow> Inl TypeError)
      else if i_emptyRows item \<noteq> 0 then
        Inr (replicate (i_emptyRows item)
               (TableRow (replicate (columnCount (i_headers item)) (TableCell [] False False)) False))
      else Inr [])"

text \<open>
  \<^verbatim>\<open>createTable\<close>: the header row, when headers are defined, then the body rows; no table
  at all when there is no row.
\<close>

definition createTable :: "item \<Rightarrow> jsval \<Rightarrow> (string \<times> jsval) list \<Rightarrow> error + docx_el option" where
  "createTable item userData contentJson =
     and_then (header_rows (i_headers item)) (\<lambda>header.
     and_then (body_rows item userData contentJson) (\<lambda>body.
       Inr (if header @ body = [] then None else Some (Table (header @ body)))))"

subsection \<open>Content items and sections\<close>

fun processContentItem :: "item \<Rightarrow> jsval \<Rightarrow> (string \<times> jsval) list \<Rightarrow> error + docx_el list"
  and processSubItems :: "item list \<Rightarrow> jsval \<Rightarrow> (string \<times> jsval) list \<Rightarrow> error + docx_el list"
where
  "processContentItem (Item ty cond tmpl txt hdrs lp rws src er content) userData contentJson =
     (if ty = ''paragraph'' then
        and_then (renderTemplate (js_or (js_or tmpl txt) (JStr [])) userData (blocks contentJson))
          (\<lambda>text. Inr [Paragraph text])
      else if ty = ''table'' then
        and_then (createTable (Item ty cond tmpl txt hdrs lp rws src er content) userData contentJson)
          (\<lambda>table. Inr (case table of None \<Rightarrow> [] | Some t \<Rightarrow> [t]))
      else if ty = ''conditional'' then
        (case evaluateCondition cond userData of
           Inl e \<Rightarrow> Inl e
         | Inr met \<Rightarrow> if met then processSubItems content userData contentJson else Inr [])
      else Inr [])"
| "processSubItems [] userData contentJson = Inr []"
| "processSubItems (subItem # rest) userData contentJson =
     (case processContentItem subItem userData contentJson of
        Inl e \<Rightarrow> Inl e
      | Inr subElements \<Rightarrow>
          (case processSubItems rest userData contentJson of
             Inl e \<Rightarrow> Inl e
           | Inr others \<Rightarrow> Inr (subElements @ others)))"

text \<open>\<^verbatim>\<open>item.condition && !evaluateCondition(item.condition, data)\<close>: the item is skipped.\<close>

definition skipped :: "item \<Rightarrow> jsval \<Rightarrow> error + bool" where
  "skipped item data =
     (case i_condition item of
        None \<Rightarrow> Inr False
      | Some c \<Rightarrow> negate (evaluateCondition (Some c) data))"

fun section_content :: "item list \<Rightarrow> jsval \<Rightarrow> (string \<times> jsval) list \<Rightarrow> error + docx_el list" where
  "section_content [] data contentJson = Inr []"
| "section_content (item # rest) data contentJson =
     (case skipped item data of
        Inl e \<Rightarrow> Inl e
      | Inr skip \<Rightarrow>
          if skip then section_content rest data contentJson
          else
            (case processContentItem item data contentJson of
               Inl e \<Rightarrow> Inl e
             | Inr contentElements \<Rightarrow>
                 (case section_content rest data contentJson of
                    Inl e \<Rightarrow> Inl e
                  | Inr others \<Rightarrow> Inr (contentElements @ others))))"

text \<open>\<^verbatim>\<open>level || 1\<close>.\<close>

definition level_or_1 :: "nat option \<Rightarrow> nat" where
  "level_or_1 l = (case l of None \<Rightarrow> 1 | Some n \<Rightarrow> if n = 0 then 1 else n)"

definition section_heading :: "heading option \<Rightarrow> jsval \<Rightarrow> (string \<times> jsval) list \<Rightarrow> error + docx_el list" where
  "section_heading h data contentJson =
     (case h of
        None \<Rightarrow> Inr []
      | Some hg \<Rightarrow>
          and_then (renderTemplate (h_text hg) data (blocks contentJson))
            (\<lambda>headingText. Inr [Heading headingText (level_or_1 (h_level hg))]))"

text \<open>The sections of the document: of each section, the heading, then the content.\<close>

fun docSections :: "struct_section list \<Rightarrow> jsval \<Rightarrow> (string \<times> jsval) list \<Rightarrow> error + docx_el list list" where
  "docSections [] data contentJson = Inr []"
| "docSections (s # rest) data contentJson =
     (if s_type s = ''header'' \<or> s_type s = ''footer'' then docSections rest data contentJson
      else
        (case section_heading (s_heading s) data contentJson of
           Inl e \<Rightarrow> Inl e
         | Inr hd_els \<Rightarrow>
             (case section_content (s_content s) data contentJson of
                Inl e \<Rightarrow> Inl e
              | Inr els \<Rightarrow>
                  (case docSections rest data contentJson of
                     Inl e \<Rightarrow> Inl e
                   | Inr others \<Rightarrow> Inr ((hd_els @ els) # others)))))"

text \<open>
  \<^verbatim>\<open>{...userData, today: getToday(), formatDate: (date) => formatDate(date)}\<close>. The spread
  copies the own properties of an object, the elements of an array and the characters of
  an ASCII string under their indices, and nothing of any other value; the two helper
  keys override what the user data holds under them.
\<close>

definition spread :: "jsval \<Rightarrow> error + (string \<times> jsval) list" where
  "spread v =
     (case v of
        JObj kvs \<Rightarrow> Inr kvs
      | JArr xs \<Rightarrow> Inr (zip (map nat_digits [0..<length xs]) xs)
      | JStr s \<Rightarrow>
          if ascii s then Inr (zip (map nat_digits [0..<length s]) (map (\<lambda>c. JStr [c]) s))
          else Inl Outside
      | _ \<Rightarrow> Inr [])"

definition enhancedUserData :: "string \<Rightarrow> jsval \<Rightarrow> error + jsval" where
  "enhancedUserData today userData =
     and_then (spread userData) (\<lambda>kvs.
       Inr (JObj ((''today'', JStr today) # (''formatDate'', JFun ''(date) => formatDate(date)'') # kvs)))"

text \<open>
  \<^verbatim>\<open>generateFromStructure\<close>. \<^verbatim>\<open>getToday()\<close> reads the clock: the date it returns is the
  first argument here. The result is the list of sections given to the \<open>Document\<close>
  constructor, or the error thrown.
\<close>

definition generateFromStructure ::
  "string \<Rightarrow> structureJson option \<Rightarrow> jsval \<Rightarrow> (string \<times> jsval) list \<Rightarrow> error + docx_el list list" where
  "generateFromStructure today structure userData contentJson =
     (case structure of
        None \<Rightarrow> Inl InvalidStructureJSON
      | Some st \<Rightarrow>
          (case sections st of
             None \<Rightarrow> Inl InvalidStructureJSON
           | Some secs \<Rightarrow>
               and_then (enhancedUserData today userData) (\<lambda>data.
               and_then (docSections secs data contentJson) (\<lambda>ds.
                 Inr (if ds \<noteq> [] then ds else [[Paragraph (JStr ''Empty document'')]])))))"

section \<open>The preview\<close>

text \<open>
  \<^verbatim>\<open>generateHtmlPreview\<close> builds a string by concatenation. The model records each element
  it writes as a node, with the texts already escaped, and \<open>html_string\<close> writes the
  nodes out with the literals of the code; the string returned is that of the nodes.
\<close>

definition escape_char :: "char \<Rightarrow> string" where
  \<open>escape_char c =
     (if c = CHR ''&'' then ''&amp;''
      else if c = CHR ''<'' then ''&lt;''
      else if c = CHR ''>'' then ''&gt;''
      else if c = CHR 0x22 then ''&quot;''
      else if c = CHR 0x27 then ''&#039;''
      else [c])\<close>

text \<open>\<^verbatim>\<open>escapeHtml(text)\<close>: \<open>String(text)\<close> with the five special characters replaced.\<close>

definition escapeHtml :: "jsval \<Rightarrow> error + string" where
  "escapeHtml text = and_then (js_String text) (\<lambda>s. Inr (concat (map escape_char s)))"

datatype html =
    H_section "html list"
  | H_heading nat string
  | H_p string
  | H_table "string list option" "string list list"

definition th_string :: "string \<Rightarrow> string" where
  \<open>th_string h = ''<th style="background-color: #ccc; padding: 8px;">'' @ h @ ''</th>''\<close>

definition td_string :: "string \<Rightarrow> string" where
  \<open>td_string c = ''<td style="padding: 8px;">'' @ c @ ''</td>''\<close>

definition tr_string :: "string list \<Rightarrow> string" where
  "tr_string cells = ''<tr>'' @ concat (map td_string cells) @ ''</tr>''"

definition thead_string :: "string list option \<Rightarrow> string" where
  "thead_string headers =
     (case headers of
        None \<Rightarrow> []
      | Some hs \<Rightarrow> ''<thead><tr>'' @ concat (map th_string hs) @ ''</tr></thead>'')"

fun html_string :: "html \<Rightarrow> string" where
  "html_string (H_section children) = ''<section>'' @ concat (map html_string children) @ ''</section>''"
| "html_string (H_heading level text) =
     ''<h'' @ nat_digits level @ ''>'' @ text @ ''</h'' @ nat_digits level @ ''>''"
| "html_string (H_p text) = ''<p>'' @ text @ ''</p>''"
| \<open>html_string (H_table headers rows) =
     ''<table border="1" style="border-collapse: collapse; width: 100%;">'' @ thead_string headers
     @ ''<tbody>'' @ concat (map tr_string rows) @ ''</tbody></table>''\<close>

text \<open>The header cells of the preview's table, when headers are defined.\<close>

definition html_headers :: "jsval list option \<Rightarrow> error + string list option" where
  "html_headers headers =
     (case headers of
        None \<Rightarrow> Inr None
      | Some hs \<Rightarrow> and_then (traverse escapeHtml hs) (\<lambda>cells. Inr (Some cells)))"

text \<open>One cell of a loop table in the preview.\<close>

definition html_loop_cell :: "jsval \<Rightarrow> jsval \<Rightarrow> jsval \<Rightarrow> error + string" where
  "html_loop_cell boilerplate rowData template =
     and_then (renderTemplate template rowData boilerplate) escapeHtml"

text \<open>One body row of a loop table in the preview; \<^verbatim>\<open>(item.rows || []).forEach\<close> needs an array.\<close>

definition html_loop_row :: "jsval \<Rightarrow> jsval \<Rightarrow> jsval \<Rightarrow> error + string list" where
  "html_loop_row rows boilerplate rowData =
     (case js_or rows (JArr []) of
        JArr templates \<Rightarrow> traverse (html_loop_cell boilerplate rowData) templates
      | _ \<Rightarrow> Inl TypeError)"

text \<open>The body of the preview's table: the loop mode, or else the empty rows.\<close>

definition html_body_rows :: "item \<Rightarrow> jsval \<Rightarrow> (string \<times> jsval) list \<Rightarrow> error + string list list" where
  "html_body_rows item userData contentJson =
     (if truthy_str (i_loop item) then
        and_then (getNestedValue userData (loopPath (the (i_loop item)))) (\<lambda>dataArray.
          (case dataArray of
             JArr elements \<Rightarrow> traverse (html_loop_row (i_rows item) (blocks contentJson)) elements
           | _ \<Rightarrow> Inr []))
      else if i_emptyRows item \<noteq> 0 then
        Inr (replicate (i_emptyRows item) (replicate (columnCount (i_headers item)) ''&nbsp;''))
      else Inr [])"

text \<open>The table of the preview: the header cells, then the body.\<close>

definition html_table :: "item \<Rightarrow> jsval \<Rightarrow> (string \<times> jsval) list \<Rightarrow> error + html" where
  "html_table item userData contentJson =
     and_then (html_headers (i_headers item)) (\<lambda>headers.
     and_then (html_body_rows item userData contentJson) (\<lambda>rows.
       Inr (H_table headers rows)))"

fun renderHtmlContentItem :: "item \<Rightarrow> jsval \<Rightarrow> (string \<times> jsval) list \<Rightarrow> error + html list"
  and renderHtmlSubItems :: "item list \<Rightarrow> jsval \<Rightarrow> (string \<times> jsval) list \<Rightarrow> error + html list"
where
  "renderHtmlContentItem (Item ty cond tmpl txt hdrs lp rws src er content) userData contentJson =
     (if ty = ''paragraph'' then
        and_then (renderTemplate (js_or (js_or tmpl txt) (JStr [])) userData (blocks contentJson))
          (\<lambda>text. and_then (escapeHtml text) (\<lambda>escaped. Inr [H_p escaped]))
      else if ty = ''table'' then
        and_then (html_table (Item ty cond tmpl txt hdrs lp rws src er content) userData contentJson)
          (\<lambda>table. Inr [table])
      else if ty = ''conditional'' then
        (case evaluateCondition cond userData of
           Inl e \<Rightarrow> Inl e
         | Inr met \<Rightarrow> if met then renderHtmlSubItems content userData contentJson else Inr [])
      else Inr [])"
| "renderHtmlSubItems [] userData contentJson = Inr []"
| "renderHtmlSubItems (subItem # rest) userData contentJson =
     (case renderHtmlContentItem subItem userData contentJson of
        Inl e \<Rightarrow> Inl e
      | Inr h \<Rightarrow>
          (case renderHtmlSubItems rest userData contentJson of
             Inl e \<Rightarrow> Inl e
           | Inr others \<Rightarrow> Inr (h @ others)))"

fun html_section_content :: "item list \<Rightarrow> jsval \<Rightarrow> (string \<times> jsval) list \<Rightarrow> error + html list" where
  "html_section_content [] data contentJson = Inr []"
| "html_section_content (item # rest) data contentJson =
     (case skipped item data of
        Inl e \<Rightarrow> Inl e
      | Inr skip \<Rightarrow>
          if skip then html_section_content rest data contentJson
          else
            (case renderHtmlContentItem item data contentJson of
               Inl e \<Rightarrow> Inl e
             | Inr h \<Rightarrow>
                 (case html_section_content rest data contentJson of
                    Inl e \<Rightarrow> Inl e
                  | Inr others \<Rightarrow> Inr (h @ others))))"

definition html_heading :: "heading option \<Rightarrow> jsval \<Rightarrow> (string \<times> jsval) list \<Rightarrow> error + html list" where
  "html_heading h data contentJson =
     (case h of
        None \<Rightarrow> Inr []
      | Some hg \<Rightarrow>
          and_then (renderTemplate (h_text hg) data (blocks contentJson)) (\<lambda>headingText.
          and_then (escapeHtml headingText) (\<lambda>escaped.
            Inr [H_heading (level_or_1 (h_level hg)) escaped])))"

fun html_sections :: "struct_section list \<Rightarrow> jsval \<Rightarrow> (string \<times> jsval) list \<Rightarrow> error + html list" where
  "html_sections [] data contentJson = Inr []"
| "html_sections (s # rest) data contentJson =
     (if s_type s = ''header'' \<or> s_type s = ''footer'' then html_sections rest data contentJson
      else
        (case html_heading (s_heading s) data contentJson of
           Inl e \<Rightarrow> Inl e
         | Inr hd_nodes \<Rightarrow>
             (case html_section_content (s_content s) data contentJson of
                Inl e \<Rightarrow> Inl e
              | Inr h \<Rightarrow>
                  (case html_sections rest data contentJson of
                     Inl e \<Rightarrow> Inl e
                   | Inr others \<Rightarrow> Inr (H_section (hd_nodes @ h) # others)))))"

text \<open>
  The body of the \<open>try\<close> block: the section nodes, or the error the \<open>catch\<close> receives.
  Reading \<open>sections\<close> of a \<open>null\<close> structure is a type error; a structure without
  sections is read as one with none (\<^verbatim>\<open>structureJson.sections || []\<close>).
\<close>

definition preview_nodes :: "structureJson option \<Rightarrow> jsval \<Rightarrow> (string \<times> jsval) list \<Rightarrow> error + html list" where
  "preview_nodes structure userData contentJson =
     (case structure of
        None \<Rightarrow> Inl TypeError
      | Some st \<Rightarrow>
          html_sections (case sections st of None \<Rightarrow> [] | Some secs \<Rightarrow> secs) userData contentJson)"

text \<open>
  \<^verbatim>\<open>generateHtmlPreview\<close>: the preview of the nodes, or, when the body threw, the text of
  the \<open>catch\<close>.
\<close>

definition generateHtmlPreview :: "structureJson option \<Rightarrow> jsval \<Rightarrow> (string \<times> jsval) list \<Rightarrow> error + string" where
  \<open>generateHtmlPreview structure userData contentJson =
     (case preview_nodes structure userData contentJson of
        Inl Outside \<Rightarrow> Inl Outside
      | Inl e \<Rightarrow> Inr ''<p>Preview generation failed</p>''
      | Inr nodes \<Rightarrow> Inr (''<div class="document-preview">'' @ concat (map html_string nodes) @ ''</div>''))\<close>

section \<open>Validation of the submitted data\<close>

text \<open>
  The form schema as \<^verbatim>\<open>validateUserData\<close> reads it: sections with an optional list of
  fields; a field has an id, a label, the required flag, a type tag and maybe validation
  constraints, each \<open>undefined\<close> when absent.
\<close>

record validation =
  v_min :: jsval
  v_max :: jsval
  v_minLength :: jsval
  v_maxLength :: jsval

record field =
  f_id :: string
  f_label :: string
  f_required :: bool
  f_type :: string
  f_validation :: "validation option"












section \<open>Notions used by the properties\<close>

text \<open>The text of the template that a token stands for.\<close>

definition token_text :: "token \<Rightarrow> string" where
  "token_text tok = (case tok of Lit c \<Rightarrow> [c] | Placeholder m p \<Rightarrow> m)"

text \<open>
  What a placeholder's path resolves to, in the words of the specification: a path
  under \<open>boilerplate.\<close> in the boilerplate mapping, with the prefix stripped, and any other
  path in the data record.
\<close>

definition resolve :: "jsval \<Rightarrow> jsval \<Rightarrow> string \<Rightarrow> error + jsval" where
  "resolve data boilerplate path =
     (if startsWith (trim path) ''boilerplate.''
      then getNestedValue boilerplate (drop 12 (trim path))
      else getNestedValue data (trim path))"

text \<open>
  The text that stands for a token in the rendered template when its path resolves as
  \<open>res\<close> says: a character for itself; a placeholder for the string of its value, or for
  its own text when the value is \<open>undefined\<close>.
\<close>

definition substitute :: "(string \<Rightarrow> error + jsval) \<Rightarrow> token \<Rightarrow> error + string" where
  "substitute res tok =
     (case tok of
        Lit c \<Rightarrow> Inr [c]
      | Placeholder m p \<Rightarrow>
          and_then (res p) (\<lambda>v. if v = JUndefined then Inr m else js_String v))"

subsection \<open>Counting the elements of the two outputs\<close>






















subsection \<open>Inputs of the scenarios\<close>

text \<open>A paragraph item with the given template, and nothing else.\<close>

definition paragraph_item :: "jsval \<Rightarrow> item" where
  "paragraph_item t = Item ''paragraph'' None t JUndefined None None JUndefined None 0 []"

text \<open>
  The end-to-end scenario of the specification: one section with the heading
  \<open>Report for {{project}}\<close> and one paragraph, whose template is the argument; the content
  library with the block \<open>intro\<close>; the data record with the project \<open>Alpha\<close>.
\<close>

definition report_structure :: "string \<Rightarrow> structureJson" where
  "report_structure placeholder =
     \<lparr>sections = Some [\<lparr>s_type = ''section'',
        s_heading = Some \<lparr>h_text = JStr ''Report for {{project}}'', h_level = None\<rparr>,
        s_content = [paragraph_item (JStr placeholder)]\<rparr>]\<rparr>"

definition report_content :: "(string \<times> jsval) list" where
  "report_content = [(''blocks'', JObj [(''intro'', JObj [(''default'', JStr ''Standard intro text.'')])])]"

definition report_data :: jsval where
  "report_data = JObj [(''project'', JStr ''Alpha'')]"

text \<open>
  A loop table over \<open>items\<close> with the row template \<open>["{{name}}", "{{qty}}"]\<close> and no
  headers, and a data record with two items and a \<open>name\<close> of its own.
\<close>

definition parts_table :: item where
  "parts_table = Item ''table'' None JUndefined JUndefined None (Some ''{{#items}}'')
     (JArr [JStr ''{{name}}'', JStr ''{{qty}}'']) None 0 []"

definition parts_data :: jsval where
  "parts_data = JObj [(''name'', JStr ''top level''),
     (''items'', JArr [JObj [(''name'', JStr ''bolt''), (''qty'', JNum 4)],
                       JObj [(''name'', JStr ''nut''), (''qty'', JNum 12)]])]"

text \<open>A structure of one section that holds the given items and has no heading.\<close>

definition one_section :: "item list \<Rightarrow> structureJson" where
  "one_section items = \<lparr>sections = Some [\<lparr>s_type = ''section'', s_heading = None, s_content = items\<rparr>]\<rparr>"











subsection \<open>Reading the date\<close>

text \<open>
  A path reads the date when its first key is \<open>today\<close>. A template reads it when one of
  its placeholders, not a boilerplate path, has such a path; a condition, when its field
  is such a path. An item reads the date when its condition, its template, its loop path,
  a cell of its inline rows or one of its nested items does; a structure, when a heading
  or an item of one of its sections does.
\<close>

definition reads_today :: "string \<Rightarrow> bool" where
  "reads_today path = (path \<noteq> [] \<and> hd (split_dot path) = ''today'')"

definition template_reads_today :: "jsval \<Rightarrow> bool" where
  "template_reads_today template =
     (case template of
        JStr t \<Rightarrow>
          list_ex (\<lambda>tok. case tok of
                      Lit c \<Rightarrow> False
                    | Placeholder m p \<Rightarrow>
                        \<not> startsWith (trim p) ''boilerplate.'' \<and> reads_today (trim p))
            (scan t)
      | _ \<Rightarrow> False)"

definition condition_reads_today :: "condition option \<Rightarrow> bool" where
  "condition_reads_today cond =
     (case cond of
        None \<Rightarrow> False
      | Some c \<Rightarrow> (case c_field c of None \<Rightarrow> False | Some f \<Rightarrow> reads_today f))"

definition cell_reads_today :: "jsval \<Rightarrow> bool" where
  "cell_reads_today cellDef =
     (case cellDef of
        JObj kvs \<Rightarrow>
          template_reads_today
            (js_or (js_or (own_prop kvs ''template'') (own_prop kvs ''text'')) (JStr []))
      | _ \<Rightarrow> False)"

definition rows_read_today :: "jsval \<Rightarrow> bool" where
  "rows_read_today rows =
     (case rows of
        JArr rowDefs \<Rightarrow>
          list_ex (\<lambda>rowDef. case rowDef of
                      JArr cellDefs \<Rightarrow> list_ex cell_reads_today cellDefs
                    | _ \<Rightarrow> False)
            rowDefs
      | _ \<Rightarrow> False)"

fun item_reads_today :: "item \<Rightarrow> bool" where
  "item_reads_today (Item ty cond tmpl txt hdrs lp rws src er content) =
     (condition_reads_today cond
      \<or> template_reads_today (js_or (js_or tmpl txt) (JStr []))
      \<or> (case lp of None \<Rightarrow> False | Some l \<Rightarrow> reads_today (loopPath l))
      \<or> rows_read_today rws
      \<or> list_ex item_reads_today content)"

definition section_reads_today :: "struct_section \<Rightarrow> bool" where
  "section_reads_today s =
     ((case s_heading s of None \<Rightarrow> False | Some h \<Rightarrow> template_reads_today (h_text h))
      \<or> list_ex item_reads_today (s_content s))"

definition structure_reads_today :: "structureJson \<Rightarrow> bool" where
  "structure_reads_today st =
     (case sections st of None \<Rightarrow> False | Some secs \<Rightarrow> list_ex section_reads_today secs)"

section \<open>Properties of the template helpers\<close>

lemma token_text_simps [simp]:
  "token_text (Lit c) = [c]" "token_text (Placeholder m p) = m"
  by (simp_all add: token_text_def)

lemma traverse_Inr_iff:
  "traverse f xs = Inr ys \<longleftrightarrow>
     length ys = length xs \<and> (\<forall>i < length xs. f (xs ! i) = Inr (ys ! i))"
proof (induction xs arbitrary: ys)
  case Nil
  show ?case by auto
next
  case (Cons x xs)
  show ?case
  proof (cases ys)
    case Nil
    then show ?thesis by (auto split: sum.splits)
  next
    case (Cons y ys')
    have "(\<forall>i < Suc (length xs). f ((x # xs) ! i) = Inr ((y # ys') ! i)) \<longleftrightarrow>
        f x = Inr y \<and> (\<forall>i < length xs. f (xs ! i) = Inr (ys' ! i))"
      by (auto simp: All_less_Suc2)
    with Cons Cons.IH [of ys'] show ?thesis by (auto split: sum.splits)
  qed
qed

lemma traverse_Inl: "traverse f xs = Inl e \<Longrightarrow> \<exists>x \<in> set xs. f x = Inl e"
  by (induction xs) (auto split: sum.splits)

lemma traverse_all_Inr: "(\<And>x. x \<in> set xs \<Longrightarrow> f x = Inr (g x)) \<Longrightarrow> traverse f xs = Inr (map g xs)"
  by (induction xs) simp_all

lemma traverse_length: "traverse f xs = Inr ys \<Longrightarrow> length ys = length xs"
  by (simp add: traverse_Inr_iff)

lemma match_placeholder_text:
  assumes "match_placeholder s = Some (m, p, rest)"
  shows "s = m @ rest" and "m = ''{{'' @ p @ ''}}''"
proof -
  from assms obtain t where s: "s = CHR ''{'' # CHR ''{'' # t"
    and p: "p = takeWhile (\<lambda>c. c \<noteq> CHR ''}'') t"
    and k: "take 2 (dropWhile (\<lambda>c. c \<noteq> CHR ''}'') t) = ''}}''"
    and r: "rest = drop 2 (dropWhile (\<lambda>c. c \<noteq> CHR ''}'') t)"
    and m: "m = ''{{'' @ p @ ''}}''"
    by (auto simp: match_placeholder_def Let_def split: list.splits if_splits)
  show "m = ''{{'' @ p @ ''}}''" by (rule m)
  have "dropWhile (\<lambda>c. c \<noteq> CHR ''}'') t = ''}}'' @ rest"
    using append_take_drop_id [of 2 "dropWhile (\<lambda>c. c \<noteq> CHR ''}'') t"] k r by simp
  then have "t = p @ ''}}'' @ rest"
    using takeWhile_dropWhile_id [of "\<lambda>c. c \<noteq> CHR ''}''" t] p by simp
  with s m show "s = m @ rest" by simp
qed

text \<open>The tokens of a template, written one after the other, are the template.\<close>

lemma scan_text: "concat (map token_text (scan t)) = t"
proof (induction t rule: scan.induct)
  case 1
  show ?case by simp
next
  case (2 c cs)
  show ?case
  proof (cases "match_placeholder (c # cs)")
    case None
    with 2 show ?thesis by (simp add: scan.simps(2))
  next
    case (Some a)
    then obtain m p rest where a: "a = (m, p, rest)" by (cases a) auto
    with Some 2 have "concat (map token_text (scan rest)) = rest" by simp
    moreover have "c # cs = m @ rest" using Some a match_placeholder_text(1) by simp
    moreover have "scan (c # cs) = Placeholder m p # scan rest"
      using Some a by (simp add: scan.simps(2))
    ultimately show ?thesis by (simp only: list.map concat.simps token_text_simps)
  qed
qed

text \<open>The callback and the conversion of its result, in the words of the specification.\<close>

lemma replace_token_substitute:
  "replace_token data boilerplate tok = substitute (resolve data boilerplate) tok"
proof (cases tok)
  case (Lit c)
  then show ?thesis by (simp add: replace_token_def substitute_def)
next
  case (Placeholder m p)
  show ?thesis
  proof (cases "resolve data boilerplate p")
    case (Inl e)
    with Placeholder show ?thesis
      by (simp add: replace_token_def substitute_def replacer_def resolve_def Let_def split: if_splits)
  next
    case (Inr v)
    with Placeholder show ?thesis
      by (simp add: replace_token_def substitute_def replacer_def resolve_def Let_def split: if_splits)
  qed
qed

lemma renderTemplate_string:
  "renderTemplate (JStr t) data boilerplate =
     (if t = [] then Inr (JStr [])
      else and_then (traverse (substitute (resolve data (or_empty_object boilerplate))) (scan t))
             (\<lambda>parts. Inr (JStr (concat parts))))"
proof -
  have "replace_token data (or_empty_object boilerplate) =
      substitute (resolve data (or_empty_object boilerplate))"
    by (rule ext) (rule replace_token_substitute)
  then show ?thesis by (simp add: renderTemplate_def)
qed

lemma renderTemplate_not_string:
  "(\<And>t. template \<noteq> JStr t) \<Longrightarrow> renderTemplate template data boilerplate = Inr template"
  by (cases template) (auto simp: renderTemplate_def)

lemma substitute_Lit [simp]: "substitute res (Lit c) = Inr [c]"
  by (simp add: substitute_def)

lemma substitute_unresolved:
  "res p = Inr JUndefined \<Longrightarrow> substitute res (Placeholder m p) = Inr m"
  by (simp add: substitute_def)

lemma substitute_token_text:
  assumes "\<And>m p. tok = Placeholder m p \<Longrightarrow> res p = Inr JUndefined"
  shows "substitute res tok = Inr (token_text tok)"
  using assms by (cases tok) (simp_all add: substitute_unresolved)

lemma renderTemplate_unresolved:
  assumes "\<forall>tok \<in> set (scan t). \<forall>m p. tok = Placeholder m p \<longrightarrow>
      resolve data (or_empty_object boilerplate) p = Inr JUndefined"
  shows "renderTemplate (JStr t) data boilerplate = Inr (JStr t)"
proof -
  have "traverse (substitute (resolve data (or_empty_object boilerplate))) (scan t) =
      Inr (map token_text (scan t))"
    using assms by (intro traverse_all_Inr) (simp add: substitute_token_text)
  then show ?thesis by (simp add: renderTemplate_string scan_text)
qed

lemma scan_hello_missing:
  "scan ''Hello {{missing.path}}'' =
     [Lit CHR ''H'', Lit CHR ''e'', Lit CHR ''l'', Lit CHR ''l'', Lit CHR ''o'', Lit CHR '' '',
      Placeholder ''{{missing.path}}'' ''missing.path'']"
  by code_simp

lemma trim_missing_path: "trim ''missing.path'' = ''missing.path''"
  by code_simp

lemma substitute_error:
  "substitute res tok = Inl e \<Longrightarrow> \<exists>m p. tok = Placeholder m p \<and> and_then (res p) js_String = Inl e"
  by (cases tok; cases "res (case tok of Placeholder m p \<Rightarrow> p)")
     (auto simp: substitute_def split: if_splits)

lemma renderTemplate_same_substitutes:
  assumes "\<And>tok. tok \<in> set (scan t) \<Longrightarrow>
      substitute (resolve data (or_empty_object boilerplate)) tok =
      substitute (resolve data' (or_empty_object boilerplate')) tok"
  shows "renderTemplate (JStr t) data boilerplate = renderTemplate (JStr t) data' boilerplate'"
proof -
  have "traverse (substitute (resolve data (or_empty_object boilerplate))) (scan t) =
      traverse (substitute (resolve data' (or_empty_object boilerplate'))) (scan t)"
    using assms by (intro traverse_cong) simp_all
  then show ?thesis by (simp only: renderTemplate_string)
qed

lemma split_dot_nonempty: "split_dot s \<noteq> []"
  by (induction s) (auto split: list.splits)

subsection \<open>Unresolved placeholders\<close>

text \<open>
  Claim C3, as stated, fails: \<^verbatim>\<open>renderTemplate\<close> raises. Against the data record
  \<open>{a: {toString: 1}}\<close> the template \<open>{{a}} {{missing}}\<close> is not rendered: the value of \<open>a\<close>
  has no string, the conversion is a type error, and the placeholder of \<open>missing\<close>, whose
  path resolves to \<open>undefined\<close>, is not left in any output.
\<close>

theorem renderTemplate_raises_on_inconvertible_value:
  "renderTemplate (JStr ''{{a}} {{missing}}'') (JObj [(''a'', JObj [(''toString'', JNum 1)])]) JUndefined
     = Inl TypeError
   \<and> resolve (JObj [(''a'', JObj [(''toString'', JNum 1)])]) (or_empty_object JUndefined) ''missing''
     = Inr JUndefined
   \<and> scan ''{{a}} {{missing}}'' =
       [Placeholder ''{{a}}'' ''a'', Lit CHR '' '', Placeholder ''{{missing}}'' ''missing'']"
  by code_simp

text \<open>
  Claim C3, amended. A template is rendered token by token, and the tokens are the
  template cut at its placeholders. Whenever \<^verbatim>\<open>renderTemplate\<close> returns, what it returns is
  the texts of the tokens one after the other, in which every placeholder whose path
  resolves to \<open>undefined\<close> stands as it is, braces included, and every other character of
  the template stands as it is. A template all of whose placeholders resolve to
  \<open>undefined\<close> is returned as it is, and so is \<open>Hello {{missing.path}}\<close> against any data
  record without \<open>missing.path\<close>. When \<^verbatim>\<open>renderTemplate\<close> raises, the error is that of
  resolving the path of one of the placeholders and converting its value to a string.
\<close>

theorem renderTemplate_keeps_unresolved_placeholders:
  "(renderTemplate (JStr t) data boilerplate = Inr r \<longrightarrow>
      (\<exists>parts. r = JStr (concat parts) \<and> length parts = length (scan t)
         \<and> (\<forall>i < length (scan t). \<forall>m p. scan t ! i = Placeholder m p \<longrightarrow>
               resolve data (or_empty_object boilerplate) p = Inr JUndefined \<longrightarrow> parts ! i = m)
         \<and> (\<forall>i < length (scan t). \<forall>c. scan t ! i = Lit c \<longrightarrow> parts ! i = [c])))
   \<and> concat (map token_text (scan t)) = t
   \<and> ((\<forall>tok \<in> set (scan t). \<forall>m p. tok = Placeholder m p \<longrightarrow>
          resolve data (or_empty_object boilerplate) p = Inr JUndefined) \<longrightarrow>
        renderTemplate (JStr t) data boilerplate = Inr (JStr t))
   \<and> (getNestedValue data ''missing.path'' = Inr JUndefined \<longrightarrow>
        renderTemplate (JStr ''Hello {{missing.path}}'') data boilerplate =
          Inr (JStr ''Hello {{missing.path}}''))
   \<and> (renderTemplate (JStr t) data boilerplate = Inl e \<longrightarrow>
        (\<exists>m p. Placeholder m p \<in> set (scan t)
           \<and> and_then (resolve data (or_empty_object boilerplate) p) js_String = Inl e))"
proof (intro conjI impI)
  let ?res = "resolve data (or_empty_object boilerplate)"
  assume a: "renderTemplate (JStr t) data boilerplate = Inr r"
  show "\<exists>parts. r = JStr (concat parts) \<and> length parts = length (scan t)
         \<and> (\<forall>i < length (scan t). \<forall>m p. scan t ! i = Placeholder m p \<longrightarrow>
               ?res p = Inr JUndefined \<longrightarrow> parts ! i = m)
         \<and> (\<forall>i < length (scan t). \<forall>c. scan t ! i = Lit c \<longrightarrow> parts ! i = [c])"
  proof (cases "t = []")
    case True
    with a have "r = JStr (concat [])" by (simp add: renderTemplate_string)
    with True show ?thesis by force
  next
    case False
    with a obtain parts where p: "traverse (substitute ?res) (scan t) = Inr parts"
      and r: "r = JStr (concat parts)"
      by (auto simp: renderTemplate_string and_then_def split: sum.splits)
    from p have l: "length parts = length (scan t)"
      and s: "\<forall>i < length (scan t). substitute ?res (scan t ! i) = Inr (parts ! i)"
      by (simp_all add: traverse_Inr_iff)
    have "\<forall>i < length (scan t). \<forall>m p. scan t ! i = Placeholder m p \<longrightarrow>
               ?res p = Inr JUndefined \<longrightarrow> parts ! i = m"
      using s by (auto simp: substitute_unresolved)
    moreover have "\<forall>i < length (scan t). \<forall>c. scan t ! i = Lit c \<longrightarrow> parts ! i = [c]"
      using s by auto
    ultimately show ?thesis using r l by blast
  qed
next
  show "concat (map token_text (scan t)) = t" by (rule scan_text)
next
  assume "\<forall>tok \<in> set (scan t). \<forall>m p. tok = Placeholder m p \<longrightarrow>
          resolve data (or_empty_object boilerplate) p = Inr JUndefined"
  then show "renderTemplate (JStr t) data boilerplate = Inr (JStr t)"
    by (rule renderTemplate_unresolved)
next
  assume u: "getNestedValue data ''missing.path'' = Inr JUndefined"
  have "resolve data (or_empty_object boilerplate) ''missing.path'' = Inr JUndefined"
    using u by (simp add: resolve_def trim_missing_path startsWith_def)
  then show "renderTemplate (JStr ''Hello {{missing.path}}'') data boilerplate =
          Inr (JStr ''Hello {{missing.path}}'')"
    by (intro renderTemplate_unresolved) (simp add: scan_hello_missing)
next
  let ?res = "resolve data (or_empty_object boilerplate)"
  assume a: "renderTemplate (JStr t) data boilerplate = Inl e"
  then have "traverse (substitute ?res) (scan t) = Inl e"
    by (auto simp: renderTemplate_string and_then_def split: if_splits sum.splits)
  from traverse_Inl [OF this] obtain tok where "tok \<in> set (scan t)" "substitute ?res tok = Inl e"
    by blast
  with substitute_error [of ?res tok e]
  show "\<exists>m p. Placeholder m p \<in> set (scan t) \<and> and_then (?res p) js_String = Inl e"
    by blast
qed

text \<open>
  The theorem at the template \<open>Hi {{a}} {{b}}\<close> and the data record \<open>{a: "A"}\<close>, where the
  placeholder of \<open>b\<close> is the ninth token; at \<open>Hello {{missing.path}}\<close> and the empty
  record; and at the template and the record on which \<^verbatim>\<open>renderTemplate\<close> raises.
\<close>

theorem renderTemplate_keeps_unresolved_placeholders_witness:
  "renderTemplate (JStr ''Hi {{a}} {{b}}'') (JObj [(''a'', JStr ''A'')]) JUndefined = Inr (JStr ''Hi A {{b}}'')
   \<and> scan ''Hi {{a}} {{b}}'' ! 5 = Placeholder ''{{b}}'' ''b''
   \<and> resolve (JObj [(''a'', JStr ''A'')]) (or_empty_object JUndefined) ''b'' = Inr JUndefined
   \<and> (\<exists>parts. JStr ''Hi A {{b}}'' = JStr (concat parts) \<and> length parts = 6 \<and> parts ! 5 = ''{{b}}'')
   \<and> getNestedValue (JObj []) ''missing.path'' = Inr JUndefined
   \<and> renderTemplate (JStr ''Hello {{missing.path}}'') (JObj []) JUndefined =
       Inr (JStr ''Hello {{missing.path}}'')
   \<and> renderTemplate (JStr ''{{a}} {{missing}}'') (JObj [(''a'', JObj [(''toString'', JNum 1)])]) JUndefined
       = Inl TypeError
   \<and> (\<exists>m p. Placeholder m p \<in> set (scan ''{{a}} {{missing}}'')
        \<and> and_then (resolve (JObj [(''a'', JObj [(''toString'', JNum 1)])]) (or_empty_object JUndefined) p)
             js_String = Inl TypeError)"
proof -
  have ren: "renderTemplate (JStr ''Hi {{a}} {{b}}'') (JObj [(''a'', JStr ''A'')]) JUndefined
     = Inr (JStr ''Hi A {{b}}'')" by code_simp
  have len: "length (scan ''Hi {{a}} {{b}}'') = 6" by code_simp
  have tok: "scan ''Hi {{a}} {{b}}'' ! 5 = Placeholder ''{{b}}'' ''b''" by code_simp
  have res: "resolve (JObj [(''a'', JStr ''A'')]) (or_empty_object JUndefined) ''b'' = Inr JUndefined"
    by code_simp
  have und: "getNestedValue (JObj []) ''missing.path'' = Inr JUndefined" by code_simp
  have err: "renderTemplate (JStr ''{{a}} {{missing}}'')
      (JObj [(''a'', JObj [(''toString'', JNum 1)])]) JUndefined = Inl TypeError" by code_simp
  note th1 = renderTemplate_keeps_unresolved_placeholders
    [of "''Hi {{a}} {{b}}''" "JObj [(''a'', JStr ''A'')]" JUndefined "JStr ''Hi A {{b}}''"]
  note th2 = renderTemplate_keeps_unresolved_placeholders [of "[]" "JObj []" JUndefined]
  note th3 = renderTemplate_keeps_unresolved_placeholders
    [of "''{{a}} {{missing}}''" "JObj [(''a'', JObj [(''toString'', JNum 1)])]" JUndefined _ TypeError]
  from th1 ren obtain parts where p: "JStr ''Hi A {{b}}'' = JStr (concat parts)"
    "length parts = length (scan ''Hi {{a}} {{b}}'')"
    "\<forall>i < length (scan ''Hi {{a}} {{b}}''). \<forall>m p. scan ''Hi {{a}} {{b}}'' ! i = Placeholder m p \<longrightarrow>
        resolve (JObj [(''a'', JStr ''A'')]) (or_empty_object JUndefined) p = Inr JUndefined \<longrightarrow>
        parts ! i = m"
    by blast
  from p(3) len tok res have "parts ! 5 = ''{{b}}''" by simp
  with p(1,2) len
  have a: "\<exists>parts. JStr ''Hi A {{b}}'' = JStr (concat parts) \<and> length parts = 6 \<and> parts ! 5 = ''{{b}}''"
    by auto
  from th2 und
  have b: "renderTemplate (JStr ''Hello {{missing.path}}'') (JObj []) JUndefined =
       Inr (JStr ''Hello {{missing.path}}'')"
    by blast
  from th3 err
  have c: "\<exists>m p. Placeholder m p \<in> set (scan ''{{a}} {{missing}}'')
        \<and> and_then (resolve (JObj [(''a'', JObj [(''toString'', JNum 1)])]) (or_empty_object JUndefined) p)
             js_String = Inl TypeError"
    by blast
  show ?thesis using ren tok res a und b err c by blast
qed

subsection \<open>Boilerplate paths\<close>

text \<open>
  Claim C5. A string template is rendered token by token: a character stands for
  itself, and a placeholder for the string of the value of its path, or for its own text
  when the value is \<open>undefined\<close>; the path, trimmed, is read in the boilerplate mapping,
  without its prefix, when it starts with \<open>boilerplate.\<close>, and in the data record
  otherwise. So a template all of whose placeholders are boilerplate paths renders the
  same against every data record, and a template none of whose placeholders is one
  renders the same against every boilerplate mapping. In particular
  \<open>{{boilerplate.blockA}}\<close> takes the block of the library when the data record has a key
  \<open>boilerplate\<close> too, and stays as it is when the library has no such block, while
  \<open>{{name}}\<close> beside it and \<open>{{boilerplate}}\<close>, which has no dot, are read in the data
  record.
\<close>

theorem boilerplate_paths_never_read_the_data_record:
  "renderTemplate (JStr t) data boilerplate =
     (if t = [] then Inr (JStr [])
      else and_then
             (traverse
                (\<lambda>tok. case tok of
                    Lit c \<Rightarrow> Inr [c]
                  | Placeholder m p \<Rightarrow>
                      and_then
                        (if startsWith (trim p) ''boilerplate.''
                         then getNestedValue (or_empty_object boilerplate) (drop 12 (trim p))
                         else getNestedValue data (trim p))
                        (\<lambda>v. if v = JUndefined then Inr m else js_String v))
                (scan t))
             (\<lambda>parts. Inr (JStr (concat parts))))
   \<and> ((\<forall>tok \<in> set (scan t). \<forall>m p. tok = Placeholder m p \<longrightarrow> startsWith (trim p) ''boilerplate.'') \<longrightarrow>
        renderTemplate (JStr t) data boilerplate = renderTemplate (JStr t) data' boilerplate)
   \<and> ((\<forall>tok \<in> set (scan t). \<forall>m p. tok = Placeholder m p \<longrightarrow> \<not> startsWith (trim p) ''boilerplate.'') \<longrightarrow>
        renderTemplate (JStr t) data boilerplate = renderTemplate (JStr t) data boilerplate')
   \<and> renderTemplate (JStr ''Hi {{name}}: {{boilerplate.blockA}}'')
        (JObj [(''name'', JStr ''Ann''), (''boilerplate'', JObj [(''blockA'', JStr ''from data'')])])
        (JObj [(''blockA'', JStr ''from library'')]) = Inr (JStr ''Hi Ann: from library'')
   \<and> renderTemplate (JStr ''Hi {{name}}: {{boilerplate.blockA}}'')
        (JObj [(''name'', JStr ''Ann''), (''boilerplate'', JObj [(''blockA'', JStr ''from data'')])])
        (JObj []) = Inr (JStr ''Hi Ann: {{boilerplate.blockA}}'')
   \<and> renderTemplate (JStr ''{{boilerplate}} / {{ boilerplate.blockA }}'')
        (JObj [(''boilerplate'', JStr ''from data'')])
        (JObj [(''blockA'', JStr ''from library'')]) = Inr (JStr ''from data / from library'')"
proof (intro conjI impI)
  have "substitute (resolve data (or_empty_object boilerplate)) =
      (\<lambda>tok. case tok of
          Lit c \<Rightarrow> Inr [c]
        | Placeholder m p \<Rightarrow>
            and_then
              (if startsWith (trim p) ''boilerplate.''
               then getNestedValue (or_empty_object boilerplate) (drop 12 (trim p))
               else getNestedValue data (trim p))
              (\<lambda>v. if v = JUndefined then Inr m else js_String v))"
    by (rule ext) (simp add: substitute_def resolve_def split: token.splits)
  then show "renderTemplate (JStr t) data boilerplate =
     (if t = [] then Inr (JStr [])
      else and_then
             (traverse
                (\<lambda>tok. case tok of
                    Lit c \<Rightarrow> Inr [c]
                  | Placeholder m p \<Rightarrow>
                      and_then
                        (if startsWith (trim p) ''boilerplate.''
                         then getNestedValue (or_empty_object boilerplate) (drop 12 (trim p))
                         else getNestedValue data (trim p))
                        (\<lambda>v. if v = JUndefined then Inr m else js_String v))
                (scan t))
             (\<lambda>parts. Inr (JStr (concat parts))))"
    by (simp only: renderTemplate_string)
next
  assume a: "\<forall>tok \<in> set (scan t). \<forall>m p. tok = Placeholder m p \<longrightarrow> startsWith (trim p) ''boilerplate.''"
  show "renderTemplate (JStr t) data boilerplate = renderTemplate (JStr t) data' boilerplate"
  proof (rule renderTemplate_same_substitutes)
    fix tok assume "tok \<in> set (scan t)"
    with a show "substitute (resolve data (or_empty_object boilerplate)) tok =
        substitute (resolve data' (or_empty_object boilerplate)) tok"
      by (cases tok) (simp_all add: substitute_def resolve_def)
  qed
next
  assume a: "\<forall>tok \<in> set (scan t). \<forall>m p. tok = Placeholder m p \<longrightarrow> \<not> startsWith (trim p) ''boilerplate.''"
  show "renderTemplate (JStr t) data boilerplate = renderTemplate (JStr t) data boilerplate'"
  proof (rule renderTemplate_same_substitutes)
    fix tok assume "tok \<in> set (scan t)"
    with a show "substitute (resolve data (or_empty_object boilerplate)) tok =
        substitute (resolve data (or_empty_object boilerplate')) tok"
      by (cases tok) (simp_all add: substitute_def resolve_def)
  qed
next
  show "renderTemplate (JStr ''Hi {{name}}: {{boilerplate.blockA}}'')
        (JObj [(''name'', JStr ''Ann''), (''boilerplate'', JObj [(''blockA'', JStr ''from data'')])])
        (JObj [(''blockA'', JStr ''from library'')]) = Inr (JStr ''Hi Ann: from library'')"
    by code_simp
next
  show "renderTemplate (JStr ''Hi {{name}}: {{boilerplate.blockA}}'')
        (JObj [(''name'', JStr ''Ann''), (''boilerplate'', JObj [(''blockA'', JStr ''from data'')])])
        (JObj []) = Inr (JStr ''Hi Ann: {{boilerplate.blockA}}'')"
    by code_simp
next
  show "renderTemplate (JStr ''{{boilerplate}} / {{ boilerplate.blockA }}'')
        (JObj [(''boilerplate'', JStr ''from data'')])
        (JObj [(''blockA'', JStr ''from library'')]) = Inr (JStr ''from data / from library'')"
    by code_simp
qed

text \<open>
  The theorem at the template \<open>{{boilerplate.blockA}}!\<close>, all of whose placeholders are
  boilerplate paths, against a data record that has the key \<open>boilerplate\<close> and against
  the empty one; and at the template \<open>{{boilerplate}}?\<close>, whose placeholder is not one,
  against two libraries.
\<close>

theorem boilerplate_paths_never_read_the_data_record_witness:
  "scan ''{{boilerplate.blockA}}!'' =
       [Placeholder ''{{boilerplate.blockA}}'' ''boilerplate.blockA'', Lit CHR ''!'']
   \<and> startsWith (trim ''boilerplate.blockA'') ''boilerplate.''
   \<and> renderTemplate (JStr ''{{boilerplate.blockA}}!'')
        (JObj [(''boilerplate'', JObj [(''blockA'', JStr ''from data'')])])
        (JObj [(''blockA'', JStr ''from library'')])
      = renderTemplate (JStr ''{{boilerplate.blockA}}!'') (JObj [])
          (JObj [(''blockA'', JStr ''from library'')])
   \<and> renderTemplate (JStr ''{{boilerplate.blockA}}!'') (JObj [])
          (JObj [(''blockA'', JStr ''from library'')]) = Inr (JStr ''from library!'')
   \<and> scan ''{{boilerplate}}?'' = [Placeholder ''{{boilerplate}}'' ''boilerplate'', Lit CHR ''?'']
   \<and> \<not> startsWith (trim ''boilerplate'') ''boilerplate.''
   \<and> renderTemplate (JStr ''{{boilerplate}}?'') (JObj [(''boilerplate'', JStr ''from data'')])
        (JObj [(''blockA'', JStr ''from library'')])
      = renderTemplate (JStr ''{{boilerplate}}?'') (JObj [(''boilerplate'', JStr ''from data'')]) JNull
   \<and> renderTemplate (JStr ''{{boilerplate}}?'') (JObj [(''boilerplate'', JStr ''from data'')]) JNull
      = Inr (JStr ''from data?'')"
proof -
  have s1: "scan ''{{boilerplate.blockA}}!'' =
      [Placeholder ''{{boilerplate.blockA}}'' ''boilerplate.blockA'', Lit CHR ''!'']"
    by code_simp
  have h1: "startsWith (trim ''boilerplate.blockA'') ''boilerplate.''" by code_simp
  have s2: "scan ''{{boilerplate}}?'' = [Placeholder ''{{boilerplate}}'' ''boilerplate'', Lit CHR ''?'']"
    by code_simp
  have h2: "\<not> startsWith (trim ''boilerplate'') ''boilerplate.''" by code_simp
  have v1: "renderTemplate (JStr ''{{boilerplate.blockA}}!'') (JObj [])
          (JObj [(''blockA'', JStr ''from library'')]) = Inr (JStr ''from library!'')"
    by code_simp
  have v2: "renderTemplate (JStr ''{{boilerplate}}?'') (JObj [(''boilerplate'', JStr ''from data'')]) JNull
      = Inr (JStr ''from data?'')"
    by code_simp
  have a1: "\<forall>tok \<in> set (scan ''{{boilerplate.blockA}}!''). \<forall>m p. tok = Placeholder m p \<longrightarrow>
         startsWith (trim p) ''boilerplate.''"
    using h1 by (simp add: s1)
  have a2: "\<forall>tok \<in> set (scan ''{{boilerplate}}?''). \<forall>m p. tok = Placeholder m p \<longrightarrow>
         \<not> startsWith (trim p) ''boilerplate.''"
    using h2 by (simp add: s2)
  note c1 = boilerplate_paths_never_read_the_data_record
    [of "''{{boilerplate.blockA}}!''" "JObj [(''boilerplate'', JObj [(''blockA'', JStr ''from data'')])]"
        "JObj [(''blockA'', JStr ''from library'')]" "JObj []"]
  note c2 = boilerplate_paths_never_read_the_data_record
    [of "''{{boilerplate}}?''" "JObj [(''boilerplate'', JStr ''from data'')]"
        "JObj [(''blockA'', JStr ''from library'')]" _ JNull]
  from c1 a1 have r1: "renderTemplate (JStr ''{{boilerplate.blockA}}!'')
        (JObj [(''boilerplate'', JObj [(''blockA'', JStr ''from data'')])])
        (JObj [(''blockA'', JStr ''from library'')])
      = renderTemplate (JStr ''{{boilerplate.blockA}}!'') (JObj [])
          (JObj [(''blockA'', JStr ''from library'')])"
    by blast
  from c2 a2 have r2: "renderTemplate (JStr ''{{boilerplate}}?'') (JObj [(''boilerplate'', JStr ''from data'')])
        (JObj [(''blockA'', JStr ''from library'')])
      = renderTemplate (JStr ''{{boilerplate}}?'') (JObj [(''boilerplate'', JStr ''from data'')]) JNull"
    by blast
  show ?thesis using s1 h1 r1 v1 s2 h2 r2 v2 by blast
qed

subsection \<open>Conditions\<close>

text \<open>
  Claim C1. The evaluator of the form does not give the outcome of \<^verbatim>\<open>evaluateCondition\<close>
  for every condition. It has no case for \<open>greater_than\<close>, \<open>less_than\<close> and
  \<open>not_contains\<close>, which it takes as unknown operators; it reads the field as one key
  where \<^verbatim>\<open>evaluateCondition\<close> follows a dotted path; and for \<open>contains\<close> it searches the
  empty string where \<^verbatim>\<open>evaluateCondition\<close> searches the text \<open>undefined\<close>. Each line below is
  one condition and one data record on which the two disagree.
\<close>

theorem form_evaluator_disagrees_with_evaluateCondition:
  "evaluateCondition
      (Some \<lparr>c_field = Some ''qty'', c_operator = ''greater_than'', c_value = JNum 5\<rparr>)
      (JObj [(''qty'', JNum 3)]) = Inr False
   \<and> evaluateConditional [(''qty'', JNum 3)]
      (Some \<lparr>show_when = Some \<lparr>c_field = Some ''qty'', c_operator = ''greater_than'', c_value = JNum 5\<rparr>\<rparr>)
      = Inr True
   \<and> evaluateCondition
      (Some \<lparr>c_field = Some ''qty'', c_operator = ''less_than'', c_value = JNum 5\<rparr>)
      (JObj [(''qty'', JNum 7)]) = Inr False
   \<and> evaluateConditional [(''qty'', JNum 7)]
      (Some \<lparr>show_when = Some \<lparr>c_field = Some ''qty'', c_operator = ''less_than'', c_value = JNum 5\<rparr>\<rparr>)
      = Inr True
   \<and> evaluateCondition
      (Some \<lparr>c_field = Some ''tags'', c_operator = ''not_contains'', c_value = JStr ''a''\<rparr>)
      (JObj [(''tags'', JArr [JStr ''a'', JStr ''b''])]) = Inr False
   \<and> evaluateConditional [(''tags'', JArr [JStr ''a'', JStr ''b''])]
      (Some \<lparr>show_when = Some \<lparr>c_field = Some ''tags'', c_operator = ''not_contains'', c_value = JStr ''a''\<rparr>\<rparr>)
      = Inr True
   \<and> evaluateCondition
      (Some \<lparr>c_field = Some ''site.kind'', c_operator = ''equals'', c_value = JStr ''dock''\<rparr>)
      (JObj [(''site'', JObj [(''kind'', JStr ''dock'')])]) = Inr True
   \<and> evaluateConditional [(''site'', JObj [(''kind'', JStr ''dock'')])]
      (Some \<lparr>show_when = Some \<lparr>c_field = Some ''site.kind'', c_operator = ''equals'', c_value = JStr ''dock''\<rparr>\<rparr>)
      = Inr False
   \<and> evaluateCondition
      (Some \<lparr>c_field = Some ''note'', c_operator = ''contains'', c_value = JStr ''fine''\<rparr>)
      (JObj []) = Inr True
   \<and> evaluateConditional []
      (Some \<lparr>show_when = Some \<lparr>c_field = Some ''note'', c_operator = ''contains'', c_value = JStr ''fine''\<rparr>\<rparr>)
      = Inr False"
  by code_simp











section \<open>Properties of document generation\<close>

subsection \<open>Loop tables\<close>

lemma and_then_Inr_iff: "and_then r f = Inr y \<longleftrightarrow> (\<exists>x. r = Inr x \<and> f x = Inr y)"
  by (cases r) simp_all

lemma and_then_Inl_iff: "and_then r f = Inl e \<longleftrightarrow> r = Inl e \<or> (\<exists>x. r = Inr x \<and> f x = Inl e)"
  by (cases r) auto

lemma body_rows_loop:
  assumes "i_loop item = Some l" "l \<noteq> []"
  shows "body_rows item userData contentJson =
     and_then (getNestedValue userData (loopPath l)) (\<lambda>dataArray.
       (case dataArray of
          JArr elements \<Rightarrow> traverse (loop_row (i_rows item) (blocks contentJson)) elements
        | _ \<Rightarrow> Inr []))"
  using assms by (simp add: body_rows_def truthy_str_def)

lemma body_rows_loop_not_array:
  assumes "i_loop item = Some l" "l \<noteq> []"
    and "getNestedValue userData (loopPath l) = Inr v" and "\<not> isArray v"
  shows "body_rows item userData contentJson = Inr []"
  using assms by (simp add: body_rows_loop isArray_def split: jsval.splits)

lemma loop_row_templates:
  "js_or rows (JArr []) = JArr templates \<Longrightarrow>
   loop_row rows b rowData =
     and_then (traverse (loop_cell b rowData) templates) (\<lambda>cells. Inr (TableRow cells False))"
  by (simp add: loop_row_def)

lemma loop_row_not_templates:
  "(\<And>ts. js_or rows (JArr []) \<noteq> JArr ts) \<Longrightarrow> loop_row rows b rowData = Inl TypeError"
  by (cases "js_or rows (JArr [])") (auto simp: loop_row_def)

lemma loop_cell_Inr:
  "loop_cell b rowData template = Inr cell \<Longrightarrow>
   \<exists>text s. renderTemplate template rowData b = Inr text \<and> js_String text = Inr s
     \<and> cell = TableCell s False False"
  by (auto simp: loop_cell_def and_then_Inr_iff)

lemma loop_cell_Inl:
  "loop_cell b rowData template = Inl e \<Longrightarrow>
   and_then (renderTemplate template rowData b) js_String = Inl e"
  by (auto simp: loop_cell_def and_then_Inl_iff)

lemma createTable_header_error:
  "header_rows (i_headers item) = Inl e \<Longrightarrow> createTable item userData contentJson = Inl e"
  by (simp add: createTable_def)

lemma createTable_header:
  "header_rows (i_headers item) = Inr header \<Longrightarrow>
   createTable item userData contentJson =
     and_then (body_rows item userData contentJson)
       (\<lambda>body. Inr (if header @ body = [] then None else Some (Table (header @ body))))"
  by (simp add: createTable_def)

text \<open>
  Claim C4, as stated, fails: table expansion raises. With a header that has no string,
  \<open>{toString: 1}\<close>, the table of a loop path that is absent is a type error; and with an
  element whose \<open>name\<close> has no string, the table of an array of length 1 is a type error
  and not one row.
\<close>

theorem createTable_loop_raises:
  "getNestedValue (JObj []) (loopPath ''{{#items}}'') = Inr JUndefined
   \<and> createTable
       (Item ''table'' None JUndefined JUndefined (Some [JObj [(''toString'', JNum 1)]])
          (Some ''{{#items}}'') (JArr [JStr ''{{name}}'', JStr ''{{qty}}'']) None 0 [])
       (JObj []) [] = Inl TypeError
   \<and> getNestedValue (JObj [(''items'', JArr [JObj [(''name'', JObj [(''toString'', JNum 1)])]])])
       (loopPath ''{{#items}}'') = Inr (JArr [JObj [(''name'', JObj [(''toString'', JNum 1)])]])
   \<and> createTable parts_table
       (JObj [(''items'', JArr [JObj [(''name'', JObj [(''toString'', JNum 1)])]])]) [] = Inl TypeError"
  by code_simp

text \<open>
  Claim C4, amended. For a table item in loop mode (its \<open>loop\<close> is a non-empty string):
  a header that cannot be converted to a string raises, whatever the loop path holds.
  When the headers convert and the loop path resolves in the data record to an array,
  the cell templates \<^verbatim>\<open>item.rows || []\<close> being the list \<open>templates\<close>: if \<^verbatim>\<open>createTable\<close>
  returns, the table is the header row, if headers are defined, followed by one body
  row per element of the array, in order, the cells of the row of an element being the
  templates rendered against that element, not against the data record, as strings; so
  an array of length N gives N body rows; and if it raises, the error is that of
  rendering and converting one of the templates against one of the elements. When the
  cell templates are not a list and the array is not empty, it is a type error. When
  the loop path is absent or resolves to anything but an array, there is no body row
  and no error: the table is its header row alone, or no table when there are no
  headers.
\<close>

theorem createTable_loop_expansion:
  assumes "i_loop item = Some l" and "l \<noteq> []"
  shows "(header_rows (i_headers item) = Inl e \<longrightarrow> createTable item userData contentJson = Inl e)
       \<and> (header_rows (i_headers item) = Inr header
          \<and> getNestedValue userData (loopPath l) = Inr (JArr dataArray)
          \<and> js_or (i_rows item) (JArr []) = JArr templates \<longrightarrow>
            (createTable item userData contentJson = Inr table \<longrightarrow>
               (\<exists>body. table = (if header @ body = [] then None else Some (Table (header @ body)))
                  \<and> length body = length dataArray
                  \<and> (\<forall>j < length dataArray. \<exists>cells.
                        body ! j = TableRow cells False \<and> length cells = length templates
                        \<and> (\<forall>k < length templates. \<exists>text s.
                              renderTemplate (templates ! k) (dataArray ! j) (blocks contentJson) = Inr text
                              \<and> js_String text = Inr s \<and> cells ! k = TableCell s False False))))
            \<and> (createTable item userData contentJson = Inl e \<longrightarrow>
                 (\<exists>rowData \<in> set dataArray. \<exists>template \<in> set templates.
                    and_then (renderTemplate template rowData (blocks contentJson)) js_String = Inl e)))
       \<and> (header_rows (i_headers item) = Inr header
          \<and> getNestedValue userData (loopPath l) = Inr (JArr dataArray) \<and> dataArray \<noteq> []
          \<and> (\<forall>ts. js_or (i_rows item) (JArr []) \<noteq> JArr ts) \<longrightarrow>
            createTable item userData contentJson = Inl TypeError)
       \<and> (header_rows (i_headers item) = Inr header
          \<and> getNestedValue userData (loopPath l) = Inr v \<and> \<not> isArray v \<longrightarrow>
            createTable item userData contentJson =
              Inr (if header = [] then None else Some (Table header)))"
proof (intro conjI impI)
  assume "header_rows (i_headers item) = Inl e"
  then show "createTable item userData contentJson = Inl e" by (rule createTable_header_error)
next
  assume a: "header_rows (i_headers item) = Inr header
          \<and> getNestedValue userData (loopPath l) = Inr (JArr dataArray)
          \<and> js_or (i_rows item) (JArr []) = JArr templates"
    and r: "createTable item userData contentJson = Inr table"
  let ?b = "blocks contentJson"
  from a have b: "body_rows item userData contentJson = traverse (loop_row (i_rows item) ?b) dataArray"
    by (simp add: body_rows_loop [OF assms])
  from r a obtain body where body: "body_rows item userData contentJson = Inr body"
    and t: "table = (if header @ body = [] then None else Some (Table (header @ body)))"
    by (auto simp: createTable_header and_then_Inr_iff)
  from body b have len: "length body = length dataArray"
    and rows: "\<forall>j < length dataArray. loop_row (i_rows item) ?b (dataArray ! j) = Inr (body ! j)"
    by (simp_all add: traverse_Inr_iff)
  have "\<exists>cells. body ! j = TableRow cells False \<and> length cells = length templates
          \<and> (\<forall>k < length templates. \<exists>text s.
                renderTemplate (templates ! k) (dataArray ! j) ?b = Inr text
                \<and> js_String text = Inr s \<and> cells ! k = TableCell s False False)"
    if j: "j < length dataArray" for j
  proof -
    from rows j a obtain cells
      where c: "traverse (loop_cell ?b (dataArray ! j)) templates = Inr cells"
        and row: "body ! j = TableRow cells False"
      by (auto simp: loop_row_templates and_then_Inr_iff)
    from c have l: "length cells = length templates"
      and k: "\<forall>k < length templates. loop_cell ?b (dataArray ! j) (templates ! k) = Inr (cells ! k)"
      by (simp_all add: traverse_Inr_iff)
    from k have "\<forall>k < length templates. \<exists>text s.
                renderTemplate (templates ! k) (dataArray ! j) ?b = Inr text
                \<and> js_String text = Inr s \<and> cells ! k = TableCell s False False"
      using loop_cell_Inr by blast
    with row l show ?thesis by blast
  qed
  with t len
  show "\<exists>body. table = (if header @ body = [] then None else Some (Table (header @ body)))
          \<and> length body = length dataArray
          \<and> (\<forall>j < length dataArray. \<exists>cells.
                body ! j = TableRow cells False \<and> length cells = length templates
                \<and> (\<forall>k < length templates. \<exists>text s.
                      renderTemplate (templates ! k) (dataArray ! j) (blocks contentJson) = Inr text
                      \<and> js_String text = Inr s \<and> cells ! k = TableCell s False False))"
    by blast
next
  assume a: "header_rows (i_headers item) = Inr header
          \<and> getNestedValue userData (loopPath l) = Inr (JArr dataArray)
          \<and> js_or (i_rows item) (JArr []) = JArr templates"
    and r: "createTable item userData contentJson = Inl e"
  let ?b = "blocks contentJson"
  from a have b: "body_rows item userData contentJson = traverse (loop_row (i_rows item) ?b) dataArray"
    by (simp add: body_rows_loop [OF assms])
  from r a have "body_rows item userData contentJson = Inl e"
    by (auto simp: createTable_header and_then_Inl_iff split: if_splits)
  with b have "traverse (loop_row (i_rows item) ?b) dataArray = Inl e" by simp
  from traverse_Inl [OF this] obtain rowData where rd: "rowData \<in> set dataArray"
    and e: "loop_row (i_rows item) ?b rowData = Inl e" by blast
  from e a have "traverse (loop_cell ?b rowData) templates = Inl e"
    by (auto simp: loop_row_templates and_then_Inl_iff)
  from traverse_Inl [OF this] obtain template where "template \<in> set templates"
    "loop_cell ?b rowData template = Inl e" by blast
  with rd loop_cell_Inl
  show "\<exists>rowData \<in> set dataArray. \<exists>template \<in> set templates.
          and_then (renderTemplate template rowData (blocks contentJson)) js_String = Inl e"
    by blast
next
  assume a: "header_rows (i_headers item) = Inr header
          \<and> getNestedValue userData (loopPath l) = Inr (JArr dataArray) \<and> dataArray \<noteq> []
          \<and> (\<forall>ts. js_or (i_rows item) (JArr []) \<noteq> JArr ts)"
  then obtain x xs where d: "dataArray = x # xs" by (cases dataArray) auto
  from a have "loop_row (i_rows item) (blocks contentJson) x = Inl TypeError"
    by (intro loop_row_not_templates) simp
  with a d show "createTable item userData contentJson = Inl TypeError"
    by (simp add: createTable_header body_rows_loop [OF assms])
next
  assume a: "header_rows (i_headers item) = Inr header
          \<and> getNestedValue userData (loopPath l) = Inr v \<and> \<not> isArray v"
  then have "body_rows item userData contentJson = Inr []"
    using body_rows_loop_not_array [OF assms] by blast
  with a show "createTable item userData contentJson =
              Inr (if header = [] then None else Some (Table header))"
    by (simp add: createTable_header)
qed

text \<open>
  The theorem at the table of parts: two items give the two rows of their own names and
  quantities, while the \<open>name\<close> of the data record is not used; a loop path that holds a
  string, or is absent, gives no table; an element whose \<open>name\<close> has no string and a
  header that has none give a type error.
\<close>

theorem createTable_loop_expansion_witness:
  "i_loop parts_table = Some ''{{#items}}'' \<and> ''{{#items}}'' \<noteq> []
   \<and> header_rows (i_headers parts_table) = Inr []
   \<and> getNestedValue parts_data (loopPath ''{{#items}}'') =
       Inr (JArr [JObj [(''name'', JStr ''bolt''), (''qty'', JNum 4)],
                  JObj [(''name'', JStr ''nut''), (''qty'', JNum 12)]])
   \<and> js_or (i_rows parts_table) (JArr []) = JArr [JStr ''{{name}}'', JStr ''{{qty}}'']
   \<and> createTable parts_table parts_data [] =
       Inr (Some (Table [TableRow [TableCell ''bolt'' False False, TableCell ''4'' False False] False,
                         TableRow [TableCell ''nut'' False False, TableCell ''12'' False False] False]))
   \<and> (\<exists>body. Some (Table [TableRow [TableCell ''bolt'' False False, TableCell ''4'' False False] False,
                          TableRow [TableCell ''nut'' False False, TableCell ''12'' False False] False])
             = (if [] @ body = [] then None else Some (Table ([] @ body)))
          \<and> length body = 2)
   \<and> getNestedValue (JObj [(''items'', JStr ''none'')]) (loopPath ''{{#items}}'') = Inr (JStr ''none'')
   \<and> \<not> isArray (JStr ''none'')
   \<and> createTable parts_table (JObj [(''items'', JStr ''none'')]) [] = Inr None
   \<and> getNestedValue (JObj []) (loopPath ''{{#items}}'') = Inr JUndefined
   \<and> \<not> isArray JUndefined
   \<and> createTable parts_table (JObj []) [] = Inr None
   \<and> createTable parts_table
       (JObj [(''items'', JArr [JObj [(''name'', JObj [(''toString'', JNum 1)])]])]) [] = Inl TypeError
   \<and> (\<exists>rowData \<in> set [JObj [(''name'', JObj [(''toString'', JNum 1)])]].
        \<exists>template \<in> set [JStr ''{{name}}'', JStr ''{{qty}}''].
          and_then (renderTemplate template rowData (blocks [])) js_String = Inl TypeError)
   \<and> header_rows (Some [JObj [(''toString'', JNum 1)]]) = Inl TypeError
   \<and> createTable
       (Item ''table'' None JUndefined JUndefined (Some [JObj [(''toString'', JNum 1)]])
          (Some ''{{#items}}'') (JArr [JStr ''{{name}}'', JStr ''{{qty}}'']) None 0 [])
       (JObj []) [] = Inl TypeError"
proof -
  let ?bad = "JObj [(''items'', JArr [JObj [(''name'', JObj [(''toString'', JNum 1)])]])]"
  let ?hitem = "Item ''table'' None JUndefined JUndefined (Some [JObj [(''toString'', JNum 1)]])
          (Some ''{{#items}}'') (JArr [JStr ''{{name}}'', JStr ''{{qty}}'']) None 0 []"
  let ?table = "Some (Table [TableRow [TableCell ''bolt'' False False, TableCell ''4'' False False] False,
                         TableRow [TableCell ''nut'' False False, TableCell ''12'' False False] False])"
  have l: "i_loop parts_table = Some ''{{#items}}''" by (simp add: parts_table_def)
  have n: "''{{#items}}'' \<noteq> []" by simp
  have h: "header_rows (i_headers parts_table) = Inr []"
    by (simp add: parts_table_def header_rows_def)
  have a: "getNestedValue parts_data (loopPath ''{{#items}}'') =
       Inr (JArr [JObj [(''name'', JStr ''bolt''), (''qty'', JNum 4)],
                  JObj [(''name'', JStr ''nut''), (''qty'', JNum 12)]])" by code_simp
  have r: "js_or (i_rows parts_table) (JArr []) = JArr [JStr ''{{name}}'', JStr ''{{qty}}'']"
    by code_simp
  have c: "createTable parts_table parts_data [] = Inr ?table" by code_simp
  have b1: "getNestedValue (JObj [(''items'', JStr ''none'')]) (loopPath ''{{#items}}'') = Inr (JStr ''none'')"
    by code_simp
  have b2: "getNestedValue (JObj []) (loopPath ''{{#items}}'') = Inr JUndefined" by code_simp
  have i: "\<not> isArray (JStr ''none'')" "\<not> isArray JUndefined" by (simp_all add: isArray_def)
  have a3: "getNestedValue ?bad (loopPath ''{{#items}}'') =
      Inr (JArr [JObj [(''name'', JObj [(''toString'', JNum 1)])]])" by code_simp
  have c3: "createTable parts_table ?bad [] = Inl TypeError" by code_simp
  have h4: "header_rows (Some [JObj [(''toString'', JNum 1)]]) = Inl TypeError" by code_simp
  have l4: "i_loop ?hitem = Some ''{{#items}}''" "header_rows (i_headers ?hitem) = Inl TypeError"
    using h4 by simp_all
  note th = createTable_loop_expansion [OF l n]
  note th4 = createTable_loop_expansion [OF l4(1) n, of TypeError "JObj []" "[]"]
  from th [of _ parts_data "[]" "[]" _ _ ?table] h a r c
  have t1: "\<exists>body. ?table = (if [] @ body = [] then None else Some (Table ([] @ body)))
          \<and> length body = 2"
    by auto
  from th [of _ "JObj [(''items'', JStr ''none'')]" "[]" "[]" _ _ _ "JStr ''none''"] h b1 i
  have t2: "createTable parts_table (JObj [(''items'', JStr ''none'')]) [] = Inr None" by simp
  from th [of _ "JObj []" "[]" "[]" _ _ _ JUndefined] h b2 i
  have t3: "createTable parts_table (JObj []) [] = Inr None" by simp
  from th [of TypeError ?bad "[]" "[]" "[JObj [(''name'', JObj [(''toString'', JNum 1)])]]"
      "[JStr ''{{name}}'', JStr ''{{qty}}'']"] h a3 r c3
  have t4: "\<exists>rowData \<in> set [JObj [(''name'', JObj [(''toString'', JNum 1)])]].
        \<exists>template \<in> set [JStr ''{{name}}'', JStr ''{{qty}}''].
          and_then (renderTemplate template rowData (blocks [])) js_String = Inl TypeError"
    by blast
  from th4 l4(2)
  have t5: "createTable ?hitem (JObj []) [] = Inl TypeError" by blast
  show ?thesis using l n h a r c t1 b1 i t2 b2 t3 c3 t4 h4 t5 by blast
qed

subsection \<open>The end-to-end scenario\<close>

lemma scan_report_heading:
  "scan ''Report for {{project}}'' = map Lit ''Report for '' @ [Placeholder ''{{project}}'' ''project'']"
  by code_simp

lemma scan_intro:
  "scan ''{{boilerplate.intro}}'' = [Placeholder ''{{boilerplate.intro}}'' ''boilerplate.intro'']"
  by code_simp

lemma scan_intro_default:
  "scan ''{{boilerplate.intro.default}}'' =
     [Placeholder ''{{boilerplate.intro.default}}'' ''boilerplate.intro.default'']"
  by code_simp

lemma trim_report_paths:
  "trim ''project'' = ''project''"
  "trim ''boilerplate.intro'' = ''boilerplate.intro''"
  "trim ''boilerplate.intro.default'' = ''boilerplate.intro.default''"
  by code_simp+

lemma split_report_paths:
  "split_dot ''project'' = [''project'']"
  "split_dot ''intro'' = [''intro'']"
  "split_dot ''intro.default'' = [''intro'', ''default'']"
  by code_simp+

lemma report_enhanced:
  "enhancedUserData today report_data =
     Inr (JObj [(''today'', JStr today), (''formatDate'', JFun ''(date) => formatDate(date)''),
                (''project'', JStr ''Alpha'')])"
  by (simp add: enhancedUserData_def spread_def report_data_def)

lemma report_heading:
  "renderTemplate (JStr ''Report for {{project}}'')
     (JObj [(''today'', JStr today), (''formatDate'', f), (''project'', JStr ''Alpha'')]) b
   = Inr (JStr ''Report for Alpha'')"
  by (simp add: renderTemplate_string scan_report_heading substitute_def resolve_def
      trim_report_paths startsWith_def getNestedValue_def split_report_paths)

lemma report_blocks:
  "blocks report_content = JObj [(''intro'', JObj [(''default'', JStr ''Standard intro text.'')])]"
  by (simp add: blocks_def report_content_def own_prop_def)

lemma report_intro_block:
  "renderTemplate (JStr ''{{boilerplate.intro}}'') d
     (JObj [(''intro'', JObj [(''default'', JStr ''Standard intro text.'')])])
   = Inr (JStr ''[object Object]'')"
  by (simp add: renderTemplate_string scan_intro substitute_def resolve_def trim_report_paths
      startsWith_def getNestedValue_def split_report_paths or_empty_object_def object_to_string_def)

lemma report_intro_default:
  "renderTemplate (JStr ''{{boilerplate.intro.default}}'') d
     (JObj [(''intro'', JObj [(''default'', JStr ''Standard intro text.'')])])
   = Inr (JStr ''Standard intro text.'')"
  by (simp add: renderTemplate_string scan_intro_default substitute_def resolve_def trim_report_paths
      startsWith_def getNestedValue_def split_report_paths or_empty_object_def)

text \<open>
  Claim C7, as stated, fails: in the scenario the paragraph \<open>{{boilerplate.intro}}\<close> is not
  the default text of the block. The path resolves to the block, an object, and the
  replacement is that object as a string.
\<close>

theorem report_paragraph_is_not_the_default_text:
  "generateFromStructure ''2026-11-02'' (Some (report_structure ''{{boilerplate.intro}}''))
      report_data report_content
     = Inr [[Heading (JStr ''Report for Alpha'') 1, Paragraph (JStr ''[object Object]'')]]
   \<and> generateFromStructure ''2026-11-02'' (Some (report_structure ''{{boilerplate.intro}}''))
      report_data report_content
     \<noteq> Inr [[Heading (JStr ''Report for Alpha'') 1, Paragraph (JStr ''Standard intro text.'')]]"
  by code_simp

text \<open>
  Claim C7, amended. In the scenario, on any date, generation gives exactly one section,
  whose heading is \<open>Report for Alpha\<close> and whose one paragraph is the text
  \<open>[object Object]\<close>; the paragraph is \<open>Standard intro text.\<close> when its template names the
  default text of the block, \<open>{{boilerplate.intro.default}}\<close>.
\<close>

theorem report_scenario:
  "generateFromStructure today (Some (report_structure ''{{boilerplate.intro}}''))
      report_data report_content
     = Inr [[Heading (JStr ''Report for Alpha'') 1, Paragraph (JStr ''[object Object]'')]]
   \<and> generateFromStructure today (Some (report_structure ''{{boilerplate.intro.default}}''))
      report_data report_content
     = Inr [[Heading (JStr ''Report for Alpha'') 1, Paragraph (JStr ''Standard intro text.'')]]"
  by (simp add: generateFromStructure_def report_structure_def paragraph_item_def skipped_def
      section_heading_def level_or_1_def report_enhanced report_heading js_or_def report_blocks
      report_intro_block report_intro_default)

subsection \<open>A structure without sections, and other anomalies\<close>

lemma processContentItem_unknown_type:
  "i_type item \<notin> {''paragraph'', ''table'', ''conditional''} \<Longrightarrow>
   processContentItem item userData contentJson = Inr []"
  by (cases item) simp

lemma renderHtmlContentItem_unknown_type:
  "i_type item \<notin> {''paragraph'', ''table'', ''conditional''} \<Longrightarrow>
   renderHtmlContentItem item userData contentJson = Inr []"
  by (cases item) simp

lemma processContentItem_table:
  "i_type item = ''table'' \<Longrightarrow>
   processContentItem item userData contentJson =
     and_then (createTable item userData contentJson)
       (\<lambda>table. Inr (case table of None \<Rightarrow> [] | Some t \<Rightarrow> [t]))"
  by (cases item) simp

lemma renderHtmlContentItem_table:
  "i_type item = ''table'' \<Longrightarrow>
   renderHtmlContentItem item userData contentJson =
     and_then (html_table item userData contentJson) (\<lambda>table. Inr [table])"
  by (cases item) simp

lemma traverse_and_then_total:
  "traverse (\<lambda>x. and_then (f x) (\<lambda>y. Inr (h y))) xs =
     and_then (traverse f xs) (\<lambda>ys. Inr (map h ys))"
proof (induction xs)
  case Nil
  show ?case by simp
next
  case (Cons x xs)
  show ?case
  proof (cases "f x")
    case (Inl e)
    then show ?thesis by simp
  next
    case (Inr y)
    with Cons show ?thesis by (cases "traverse f xs") simp_all
  qed
qed

text \<open>The header cells of the preview are the header texts of the document, escaped.\<close>

lemma traverse_escapeHtml:
  "traverse escapeHtml hs =
     and_then (traverse js_String hs) (\<lambda>texts. Inr (map (\<lambda>s. concat (map escape_char s)) texts))"
proof -
  have e: "escapeHtml = (\<lambda>x. and_then (js_String x) (\<lambda>s. Inr (concat (map escape_char s))))"
    by (rule ext) (simp add: escapeHtml_def)
  show ?thesis unfolding e by (rule traverse_and_then_total)
qed

lemma html_headers_of_header_rows:
  "header_rows headers = Inr header \<Longrightarrow> \<exists>hs. html_headers headers = Inr hs"
  by (cases headers; cases "traverse js_String (the headers)")
     (simp_all add: header_rows_def html_headers_def traverse_escapeHtml)

lemma html_headers_error:
  "header_rows headers = Inl e \<Longrightarrow> html_headers headers = Inl e"
  by (cases headers; cases "traverse js_String (the headers)")
     (simp_all add: header_rows_def html_headers_def traverse_escapeHtml)

lemma html_body_rows_loop_not_array:
  assumes "i_loop item = Some l" "l \<noteq> []"
    and "getNestedValue userData (loopPath l) = Inr v" and "\<not> isArray v"
  shows "html_body_rows item userData contentJson = Inr []"
  using assms by (simp add: html_body_rows_def truthy_str_def isArray_def split: jsval.splits)

lemma html_body_rows_not_loop:
  "\<not> truthy_str (i_loop item) \<Longrightarrow> \<exists>rows. html_body_rows item userData contentJson = Inr rows"
  by (simp add: html_body_rows_def)

lemma static_row_malformed:
  "\<not> isArray rowDef \<or> (\<exists>cells. rowDef = JArr (JNull # cells)) \<Longrightarrow>
   static_row userData b rowDef = Inl TypeError"
  by (cases rowDef) (auto simp: static_row_def static_cell_def isArray_def)

lemma createTable_malformed_rows:
  assumes "\<not> truthy_str (i_loop item)" "\<not> truthy_str (i_source item)"
    and "header_rows (i_headers item) = Inr header"
    and "i_rows item = JArr (rowDef # rest)"
    and "\<not> isArray rowDef \<or> (\<exists>cells. rowDef = JArr (JNull # cells))"
  shows "createTable item userData contentJson = Inl TypeError"
  using assms(1-4) static_row_malformed [OF assms(5)]
  by (simp add: createTable_header body_rows_def)

lemma enhancedUserData_object:
  "enhancedUserData today (JObj kvs) =
     Inr (JObj ((''today'', JStr today) # (''formatDate'', JFun ''(date) => formatDate(date)'') # kvs))"
  by (simp add: enhancedUserData_def spread_def)

lemma generateFromStructure_one_item:
  assumes "i_condition item = None"
  shows "generateFromStructure today (Some (one_section [item])) (JObj kvs) contentJson =
     and_then
       (processContentItem item
          (JObj ((''today'', JStr today) # (''formatDate'', JFun ''(date) => formatDate(date)'') # kvs))
          contentJson)
       (\<lambda>els. Inr [els])"
proof (cases "processContentItem item
          (JObj ((''today'', JStr today) # (''formatDate'', JFun ''(date) => formatDate(date)'') # kvs))
          contentJson")
  case (Inl e)
  with assms show ?thesis
    by (simp add: generateFromStructure_def one_section_def enhancedUserData_object
        section_heading_def skipped_def)
next
  case (Inr els)
  with assms show ?thesis
    by (simp add: generateFromStructure_def one_section_def enhancedUserData_object
        section_heading_def skipped_def)
qed

lemma preview_nodes_one_item:
  assumes "i_condition item = None"
  shows "preview_nodes (Some (one_section [item])) userData contentJson =
     and_then (renderHtmlContentItem item userData contentJson) (\<lambda>nodes. Inr [H_section nodes])"
proof (cases "renderHtmlContentItem item userData contentJson")
  case (Inl e)
  with assms show ?thesis
    by (simp add: preview_nodes_def one_section_def html_heading_def skipped_def)
next
  case (Inr nodes)
  with assms show ?thesis
    by (simp add: preview_nodes_def one_section_def html_heading_def skipped_def)
qed

text \<open>
  Claim C8, as stated, fails on both counts. For a structure without sections the
  preview is not a failure but the empty preview. And an anomaly that is not structural
  aborts generation: a table whose one inline row holds a \<open>null\<close> cell is a type error
  on the document path, while the preview shows the table.
\<close>

theorem preview_of_structure_without_sections:
  \<open>generateFromStructure ''2026-11-02'' (Some \<lparr>sections = None\<rparr>) (JObj []) [] = Inl InvalidStructureJSON
   \<and> generateHtmlPreview (Some \<lparr>sections = None\<rparr>) (JObj []) [] = Inr ''<div class="document-preview"></div>''
   \<and> generateFromStructure ''2026-11-02''
       (Some (one_section [Item ''table'' None JUndefined JUndefined None None (JArr [JArr [JNull]]) None 0 []]))
       (JObj []) [] = Inl TypeError
   \<and> generateHtmlPreview
       (Some (one_section [Item ''table'' None JUndefined JUndefined None None (JArr [JArr [JNull]]) None 0 []]))
       (JObj []) [] =
       Inr ''<div class="document-preview"><section><table border="1" style="border-collapse: collapse; width: 100%;"><tbody></tbody></table></section></div>''\<close>
  by code_simp

text \<open>
  Claim C8, amended. For a structure that has no sections, or is \<open>null\<close>, generation of
  the document fails with the one error \<open>Invalid structure JSON\<close> and returns no
  document. The preview does not fail: for a structure without sections it is the empty
  preview, and for a \<open>null\<close> structure it is the text \<open>Preview generation failed\<close>, which
  is also what every type error inside the preview becomes; the preview raises nothing.
  Of the other anomalies, a content item of an unknown type adds nothing to the document
  and nothing to the preview, and a loop path that is absent or is not a list gives a
  table without body rows. But a table whose first inline row is not a list, or starts
  with a \<open>null\<close> cell, aborts generation of the document with a type error, while the
  preview shows a table; and a header that cannot be converted to a string aborts
  generation with that error and turns the preview into its failure text.
\<close>

theorem missing_sections_fail_only_the_document:
  \<open>(sections st = None \<longrightarrow>
      generateFromStructure today (Some st) userData contentJson = Inl InvalidStructureJSON
      \<and> generateHtmlPreview (Some st) userData contentJson = Inr ''<div class="document-preview"></div>'')
   \<and> generateFromStructure today None userData contentJson = Inl InvalidStructureJSON
   \<and> generateHtmlPreview None userData contentJson = Inr ''<p>Preview generation failed</p>''
   \<and> generateHtmlPreview structure userData contentJson \<noteq> Inl TypeError
   \<and> generateHtmlPreview structure userData contentJson \<noteq> Inl InvalidStructureJSON
   \<and> (preview_nodes structure userData contentJson = Inl TypeError \<longrightarrow>
        generateHtmlPreview structure userData contentJson = Inr ''<p>Preview generation failed</p>'')
   \<and> (i_type item \<notin> {''paragraph'', ''table'', ''conditional''} \<longrightarrow>
        processContentItem item userData contentJson = Inr []
        \<and> renderHtmlContentItem item userData contentJson = Inr [])
   \<and> (i_type item = ''table'' \<and> i_loop item = Some l \<and> l \<noteq> []
      \<and> header_rows (i_headers item) = Inr header
      \<and> getNestedValue userData (loopPath l) = Inr v \<and> \<not> isArray v \<longrightarrow>
        processContentItem item userData contentJson = Inr (if header = [] then [] else [Table header])
        \<and> (\<exists>headers. renderHtmlContentItem item userData contentJson = Inr [H_table headers []]))
   \<and> (i_type item = ''table'' \<and> i_condition item = None
      \<and> \<not> truthy_str (i_loop item) \<and> \<not> truthy_str (i_source item)
      \<and> header_rows (i_headers item) = Inr header \<and> i_rows item = JArr (rowDef # rest)
      \<and> (\<not> isArray rowDef \<or> (\<exists>cells. rowDef = JArr (JNull # cells))) \<longrightarrow>
        generateFromStructure today (Some (one_section [item])) (JObj kvs) contentJson = Inl TypeError
        \<and> (\<exists>headers rows. preview_nodes (Some (one_section [item])) (JObj kvs) contentJson =
              Inr [H_section [H_table headers rows]]))
   \<and> (i_type item = ''table'' \<and> i_condition item = None
      \<and> header_rows (i_headers item) = Inl TypeError \<longrightarrow>
        generateFromStructure today (Some (one_section [item])) (JObj kvs) contentJson = Inl TypeError
        \<and> generateHtmlPreview (Some (one_section [item])) (JObj kvs) contentJson =
            Inr ''<p>Preview generation failed</p>'')\<close>
proof (intro conjI impI)
  assume "sections st = None"
  then show "generateFromStructure today (Some st) userData contentJson = Inl InvalidStructureJSON"
    and \<open>generateHtmlPreview (Some st) userData contentJson = Inr ''<div class="document-preview"></div>''\<close>
    by (simp_all add: generateFromStructure_def generateHtmlPreview_def preview_nodes_def)
next
  show "generateFromStructure today None userData contentJson = Inl InvalidStructureJSON"
    by (simp add: generateFromStructure_def)
next
  show "generateHtmlPreview None userData contentJson = Inr ''<p>Preview generation failed</p>''"
    by (simp add: generateHtmlPreview_def preview_nodes_def)
next
  show "generateHtmlPreview structure userData contentJson \<noteq> Inl TypeError"
    by (simp add: generateHtmlPreview_def split: sum.splits error.splits)
next
  show "generateHtmlPreview structure userData contentJson \<noteq> Inl InvalidStructureJSON"
    by (simp add: generateHtmlPreview_def split: sum.splits error.splits)
next
  assume "preview_nodes structure userData contentJson = Inl TypeError"
  then show "generateHtmlPreview structure userData contentJson = Inr ''<p>Preview generation failed</p>''"
    by (simp add: generateHtmlPreview_def)
next
  assume "i_type item \<notin> {''paragraph'', ''table'', ''conditional''}"
  then show "processContentItem item userData contentJson = Inr []"
    and "renderHtmlContentItem item userData contentJson = Inr []"
    by (simp_all add: processContentItem_unknown_type renderHtmlContentItem_unknown_type)
next
  assume a: "i_type item = ''table'' \<and> i_loop item = Some l \<and> l \<noteq> []
      \<and> header_rows (i_headers item) = Inr header
      \<and> getNestedValue userData (loopPath l) = Inr v \<and> \<not> isArray v"
  then have b: "body_rows item userData contentJson = Inr []"
    using body_rows_loop_not_array by blast
  from a have h: "html_body_rows item userData contentJson = Inr []"
    using html_body_rows_loop_not_array by blast
  from a b show "processContentItem item userData contentJson =
      Inr (if header = [] then [] else [Table header])"
    by (simp add: processContentItem_table createTable_header)
  from a html_headers_of_header_rows obtain hs where "html_headers (i_headers item) = Inr hs"
    by blast
  with a h show "\<exists>headers. renderHtmlContentItem item userData contentJson = Inr [H_table headers []]"
    by (simp add: renderHtmlContentItem_table html_table_def)
next
  assume a: "i_type item = ''table'' \<and> i_condition item = None
      \<and> \<not> truthy_str (i_loop item) \<and> \<not> truthy_str (i_source item)
      \<and> header_rows (i_headers item) = Inr header \<and> i_rows item = JArr (rowDef # rest)
      \<and> (\<not> isArray rowDef \<or> (\<exists>cells. rowDef = JArr (JNull # cells)))"
  then have "createTable item d contentJson = Inl TypeError" for d
    using createTable_malformed_rows by blast
  with a show "generateFromStructure today (Some (one_section [item])) (JObj kvs) contentJson = Inl TypeError"
    by (simp add: generateFromStructure_one_item processContentItem_table)
  from a html_headers_of_header_rows obtain hs where "html_headers (i_headers item) = Inr hs"
    by blast
  moreover from a html_body_rows_not_loop obtain rows
    where "html_body_rows item (JObj kvs) contentJson = Inr rows" by blast
  ultimately show "\<exists>headers rows. preview_nodes (Some (one_section [item])) (JObj kvs) contentJson =
              Inr [H_section [H_table headers rows]]"
    using a by (simp add: preview_nodes_one_item renderHtmlContentItem_table html_table_def)
next
  assume a: "i_type item = ''table'' \<and> i_condition item = None
      \<and> header_rows (i_headers item) = Inl TypeError"
  then show "generateFromStructure today (Some (one_section [item])) (JObj kvs) contentJson = Inl TypeError"
    by (simp add: generateFromStructure_one_item processContentItem_table createTable_header_error)
  from a have "html_headers (i_headers item) = Inl TypeError" by (simp add: html_headers_error)
  with a show "generateHtmlPreview (Some (one_section [item])) (JObj kvs) contentJson =
            Inr ''<p>Preview generation failed</p>''"
    by (simp add: generateHtmlPreview_def preview_nodes_one_item renderHtmlContentItem_table
        html_table_def)
qed

text \<open>
  The theorem at the structure without sections, at an item of the type \<open>image\<close>, at
  the table of parts over a record without parts, at a table whose inline row is the
  text \<open>none\<close>, and at a table whose header is \<open>{toString: 1}\<close>.
\<close>

theorem missing_sections_fail_only_the_document_witness:
  \<open>sections \<lparr>sections = None\<rparr> = None
   \<and> generateFromStructure ''2026-11-02'' (Some \<lparr>sections = None\<rparr>) (JObj []) [] = Inl InvalidStructureJSON
   \<and> generateHtmlPreview (Some \<lparr>sections = None\<rparr>) (JObj []) [] = Inr ''<div class="document-preview"></div>''
   \<and> i_type (Item ''image'' None JUndefined JUndefined None None JUndefined None 0 [])
        \<notin> {''paragraph'', ''table'', ''conditional''}
   \<and> processContentItem (Item ''image'' None JUndefined JUndefined None None JUndefined None 0 [])
        (JObj []) [] = Inr []
   \<and> renderHtmlContentItem (Item ''image'' None JUndefined JUndefined None None JUndefined None 0 [])
        (JObj []) [] = Inr []
   \<and> getNestedValue (JObj []) (loopPath ''{{#items}}'') = Inr JUndefined
   \<and> processContentItem parts_table (JObj []) [] = Inr []
   \<and> (\<exists>headers. renderHtmlContentItem parts_table (JObj []) [] = Inr [H_table headers []])
   \<and> \<not> isArray (JStr ''none'')
   \<and> generateFromStructure ''2026-11-02''
       (Some (one_section [Item ''table'' None JUndefined JUndefined None None (JArr [JStr ''none'']) None 0 []]))
       (JObj []) [] = Inl TypeError
   \<and> (\<exists>headers rows. preview_nodes
       (Some (one_section [Item ''table'' None JUndefined JUndefined None None (JArr [JStr ''none'']) None 0 []]))
       (JObj []) [] = Inr [H_section [H_table headers rows]])
   \<and> header_rows (Some [JObj [(''toString'', JNum 1)]]) = Inl TypeError
   \<and> generateFromStructure ''2026-11-02''
       (Some (one_section [Item ''table'' None JUndefined JUndefined (Some [JObj [(''toString'', JNum 1)]])
                             None JUndefined None 2 []]))
       (JObj []) [] = Inl TypeError
   \<and> generateHtmlPreview
       (Some (one_section [Item ''table'' None JUndefined JUndefined (Some [JObj [(''toString'', JNum 1)]])
                             None JUndefined None 2 []]))
       (JObj []) [] = Inr ''<p>Preview generation failed</p>''\<close>
proof -
  let ?image = "Item ''image'' None JUndefined JUndefined None None JUndefined None 0 []"
  let ?textrow = "Item ''table'' None JUndefined JUndefined None None (JArr [JStr ''none'']) None 0 []"
  let ?hdr = "Item ''table'' None JUndefined JUndefined (Some [JObj [(''toString'', JNum 1)]])
                             None JUndefined None 2 []"
  have h: "sections \<lparr>sections = None\<rparr> = None" by simp
  have k: "i_type ?image \<notin> {''paragraph'', ''table'', ''conditional''}" by simp
  have u: "getNestedValue (JObj []) (loopPath ''{{#items}}'') = Inr JUndefined" by code_simp
  have p: "i_type parts_table = ''table''" "i_loop parts_table = Some ''{{#items}}''"
    "header_rows (i_headers parts_table) = Inr []"
    by (simp_all add: parts_table_def header_rows_def)
  have o: "\<not> isArray (JStr ''none'')" "\<not> isArray JUndefined" by (simp_all add: isArray_def)
  have q: "header_rows (i_headers ?textrow) = Inr []" "\<not> truthy_str (i_loop ?textrow)"
    "\<not> truthy_str (i_source ?textrow)"
    by (simp_all add: header_rows_def truthy_str_def)
  have e: "header_rows (Some [JObj [(''toString'', JNum 1)]]) = Inl TypeError" by code_simp
  note t1 = missing_sections_fail_only_the_document
    [of "\<lparr>sections = None\<rparr>" "''2026-11-02''" "JObj []" "[]" _ ?image]
  note t2 = missing_sections_fail_only_the_document
    [of _ _ "JObj []" "[]" _ parts_table "''{{#items}}''" "[]" JUndefined]
  note t3 = missing_sections_fail_only_the_document
    [of _ "''2026-11-02''" _ "[]" _ ?textrow _ "[]" _ "JStr ''none''" "[]" "[]"]
  note t4 = missing_sections_fail_only_the_document
    [of _ "''2026-11-02''" _ "[]" _ ?hdr _ _ _ _ _ "[]"]
  from t1 h k
  have r1: "generateFromStructure ''2026-11-02'' (Some \<lparr>sections = None\<rparr>) (JObj []) [] = Inl InvalidStructureJSON"
    \<open>generateHtmlPreview (Some \<lparr>sections = None\<rparr>) (JObj []) [] = Inr ''<div class="document-preview"></div>''\<close>
    "processContentItem ?image (JObj []) [] = Inr []"
    "renderHtmlContentItem ?image (JObj []) [] = Inr []"
    by blast+
  from t2 u p o(2)
  have r2: "processContentItem parts_table (JObj []) [] = Inr []"
    "\<exists>headers. renderHtmlContentItem parts_table (JObj []) [] = Inr [H_table headers []]"
    by auto
  from t3 q o(1)
  have r3: "generateFromStructure ''2026-11-02'' (Some (one_section [?textrow])) (JObj []) [] = Inl TypeError"
    "\<exists>headers rows. preview_nodes (Some (one_section [?textrow])) (JObj []) [] =
        Inr [H_section [H_table headers rows]]"
    by auto
  from t4 e
  have r4: "generateFromStructure ''2026-11-02'' (Some (one_section [?hdr])) (JObj []) [] = Inl TypeError"
    "generateHtmlPreview (Some (one_section [?hdr])) (JObj []) [] = Inr ''<p>Preview generation failed</p>''"
    by auto
  show ?thesis using h k u o(1) e r1 r2 r3 r4 by blast
qed

section \<open>The date in document generation\<close>

lemma getNestedValue_off_today:
  assumes "\<not> reads_today path"
  shows "getNestedValue (JObj ((''today'', x) # kvs)) path = getNestedValue (JObj ((''today'', y) # kvs)) path"
proof (cases "path = []")
  case True
  then show ?thesis by (simp add: getNestedValue_def)
next
  case False
  obtain k ks where s: "split_dot path = k # ks"
    using split_dot_nonempty [of path] by (cases "split_dot path") auto
  with assms False have "k \<noteq> ''today''" by (simp add: reads_today_def)
  then have "get_prop (JObj ((''today'', x) # kvs)) k = get_prop (JObj ((''today'', y) # kvs)) k"
    by simp
  with s False show ?thesis by (simp add: getNestedValue_def)
qed

lemma renderTemplate_off_today:
  assumes "\<not> template_reads_today template"
  shows "renderTemplate template (JObj ((''today'', x) # kvs)) b =
         renderTemplate template (JObj ((''today'', y) # kvs)) b"
proof (cases template)
  case (JStr t)
  have "renderTemplate (JStr t) (JObj ((''today'', x) # kvs)) b =
        renderTemplate (JStr t) (JObj ((''today'', y) # kvs)) b"
  proof (rule renderTemplate_same_substitutes)
    fix tok assume m: "tok \<in> set (scan t)"
    show "substitute (resolve (JObj ((''today'', x) # kvs)) (or_empty_object b)) tok =
          substitute (resolve (JObj ((''today'', y) # kvs)) (or_empty_object b)) tok"
    proof (cases tok)
      case (Lit c)
      then show ?thesis by simp
    next
      case (Placeholder mt p)
      with assms JStr m
      have "startsWith (trim p) ''boilerplate.'' \<or> \<not> reads_today (trim p)"
        by (auto simp: template_reads_today_def list_ex_iff)
      then have "resolve (JObj ((''today'', x) # kvs)) (or_empty_object b) p =
          resolve (JObj ((''today'', y) # kvs)) (or_empty_object b) p"
        using getNestedValue_off_today [of "trim p" x kvs y]
        by (auto simp: resolve_def)
      with Placeholder show ?thesis by (simp add: substitute_def)
    qed
  qed
  with JStr show ?thesis by simp
qed (simp_all add: renderTemplate_def)

lemma evaluateCondition_off_today:
  assumes "\<not> condition_reads_today cond"
  shows "evaluateCondition cond (JObj ((''today'', x) # kvs)) =
         evaluateCondition cond (JObj ((''today'', y) # kvs))"
proof (cases cond)
  case None
  then show ?thesis by (simp add: evaluateCondition_def)
next
  case (Some c)
  show ?thesis
  proof (cases "c_field c")
    case None
    with Some show ?thesis by (simp add: evaluateCondition_def)
  next
    case (Some f)
    with \<open>cond = Some c\<close> assms have "\<not> reads_today f" by (simp add: condition_reads_today_def)
    from getNestedValue_off_today [OF this, of x kvs y] Some \<open>cond = Some c\<close>
    show ?thesis by (simp add: evaluateCondition_def)
  qed
qed

lemma get_prop_cell_keys:
  "get_prop (JObj kvs) ''template'' = Inr (own_prop kvs ''template'')"
  "get_prop (JObj kvs) ''text'' = Inr (own_prop kvs ''text'')"
  "get_prop (JObj kvs) ''bold'' = Inr (own_prop kvs ''bold'')"
  by (simp_all add: own_prop_def object_prototype_keys_def split: option.splits)

lemma static_cell_object:
  "static_cell userData b (JObj cell) =
     and_then (renderTemplate (js_or (js_or (own_prop cell ''template'') (own_prop cell ''text'')) (JStr []))
                 userData b) (\<lambda>text.
     and_then (js_String text) (\<lambda>s.
       Inr (TableCell s (truthy (own_prop cell ''bold'')) False)))"
  by (simp add: static_cell_def get_prop_cell_keys js_or_def del: get_prop.simps)

lemma static_cell_not_object:
  "(\<And>cell. cellDef \<noteq> JObj cell) \<Longrightarrow> static_cell d1 b cellDef = static_cell d2 b cellDef"
  by (cases cellDef) (auto simp: static_cell_def parse_index_def is_digit_def)

lemma static_row_off_today:
  assumes "\<not> (case rowDef of JArr cellDefs \<Rightarrow> list_ex cell_reads_today cellDefs | _ \<Rightarrow> False)"
  shows "static_row (JObj ((''today'', x) # kvs)) b rowDef = static_row (JObj ((''today'', y) # kvs)) b rowDef"
proof (cases rowDef)
  case (JArr cellDefs)
  have "traverse (static_cell (JObj ((''today'', x) # kvs)) b) cellDefs
      = traverse (static_cell (JObj ((''today'', y) # kvs)) b) cellDefs"
  proof (rule traverse_cong [OF refl])
    fix cellDef assume "cellDef \<in> set cellDefs"
    with assms JArr have n: "\<not> cell_reads_today cellDef" by (auto simp: list_ex_iff)
    show "static_cell (JObj ((''today'', x) # kvs)) b cellDef =
          static_cell (JObj ((''today'', y) # kvs)) b cellDef"
    proof (cases "\<exists>cell. cellDef = JObj cell")
      case True
      then obtain cell where c: "cellDef = JObj cell" by blast
      with n have "\<not> template_reads_today
          (js_or (js_or (own_prop cell ''template'') (own_prop cell ''text'')) (JStr []))"
        by (simp add: cell_reads_today_def)
      from renderTemplate_off_today [OF this, of x kvs b y] c show ?thesis
        by (simp add: static_cell_object)
    next
      case False
      then show ?thesis by (intro static_cell_not_object) blast
    qed
  qed
  with JArr show ?thesis by (simp add: static_row_def)
qed (simp_all add: static_row_def)

lemma body_rows_off_today:
  assumes "\<not> item_reads_today item"
  shows "body_rows item (JObj ((''today'', x) # kvs)) c = body_rows item (JObj ((''today'', y) # kvs)) c"
proof -
  obtain ty cond tmpl tx hdrs lp rws src er content
    where i: "item = Item ty cond tmpl tx hdrs lp rws src er content" by (cases item)
  have l: "getNestedValue (JObj ((''today'', x) # kvs)) (loopPath (the lp))
      = getNestedValue (JObj ((''today'', y) # kvs)) (loopPath (the lp))" if "truthy_str lp"
    using that assms i getNestedValue_off_today [of "loopPath (the lp)" x kvs y]
    by (auto simp: truthy_str_def split: option.splits)
  have r: "traverse (static_row (JObj ((''today'', x) # kvs)) b) rowDefs
      = traverse (static_row (JObj ((''today'', y) # kvs)) b) rowDefs" if "rws = JArr rowDefs" for rowDefs b
  proof (rule traverse_cong [OF refl])
    fix rowDef assume "rowDef \<in> set rowDefs"
    with assms i that
    have "\<not> (case rowDef of JArr cellDefs \<Rightarrow> list_ex cell_reads_today cellDefs | _ \<Rightarrow> False)"
      by (auto simp: rows_read_today_def list_ex_iff)
    then show "static_row (JObj ((''today'', x) # kvs)) b rowDef =
        static_row (JObj ((''today'', y) # kvs)) b rowDef"
      by (rule static_row_off_today)
  qed
  show ?thesis
  proof (cases "truthy_str lp")
    case True
    with l i show ?thesis by (simp add: body_rows_def)
  next
    case False
    with i r show ?thesis by (cases rws) (simp_all add: body_rows_def)
  qed
qed

lemma createTable_off_today:
  "\<not> item_reads_today item \<Longrightarrow>
   createTable item (JObj ((''today'', x) # kvs)) c = createTable item (JObj ((''today'', y) # kvs)) c"
  by (simp add: createTable_def body_rows_off_today [of item x kvs c y])

lemma processContentItem_off_today:
  "\<not> item_reads_today item \<Longrightarrow>
     processContentItem item (JObj ((''today'', x) # kvs)) c =
     processContentItem item (JObj ((''today'', y) # kvs)) c"
  and processSubItems_off_today:
  "\<not> list_ex item_reads_today items \<Longrightarrow>
     processSubItems items (JObj ((''today'', x) # kvs)) c =
     processSubItems items (JObj ((''today'', y) # kvs)) c"
proof (induction item "JObj ((''today'', x) # kvs)" c and items "JObj ((''today'', x) # kvs)" c
    rule: processContentItem_processSubItems.induct)
  case (1 ty cond tmpl tx hdrs lp rws src er content contentJson)
  let ?item = "Item ty cond tmpl tx hdrs lp rws src er content"
  let ?d1 = "JObj ((''today'', x) # kvs)" and ?d2 = "JObj ((''today'', y) # kvs)"
  from 1(2) have a: "\<not> condition_reads_today cond"
    and b: "\<not> template_reads_today (js_or (js_or tmpl tx) (JStr []))"
    and s: "\<not> list_ex item_reads_today content" by simp_all
  note p = renderTemplate_off_today [OF b, of x kvs _ y]
  note t = createTable_off_today [OF 1(2), of x kvs contentJson y]
  note e = evaluateCondition_off_today [OF a, of x kvs y]
  show ?case
  proof (cases "ty = ''conditional'' \<and> ty \<noteq> ''paragraph'' \<and> ty \<noteq> ''table''
      \<and> evaluateCondition cond ?d1 = Inr True")
    case True
    with 1(1) s have "processSubItems content ?d1 contentJson = processSubItems content ?d2 contentJson"
      by simp
    with True e show ?thesis by simp
  next
    case False
    show ?thesis
    proof (cases "evaluateCondition cond ?d1")
      case (Inl err)
      with e have e2: "evaluateCondition cond ?d2 = Inl err" by simp
      from Inl e2 p t show ?thesis by auto
    next
      case (Inr met)
      with e have e2: "evaluateCondition cond ?d2 = Inr met" by simp
      from False Inr have "ty = ''conditional'' \<Longrightarrow> \<not> met" by auto
      with Inr e2 p t show ?thesis by auto
    qed
  qed
next
  case (2 contentJson)
  show ?case by simp
next
  case (3 subItem rest contentJson)
  let ?d1 = "JObj ((''today'', x) # kvs)" and ?d2 = "JObj ((''today'', y) # kvs)"
  from 3(3) have a: "\<not> item_reads_today subItem" and b: "\<not> list_ex item_reads_today rest"
    by simp_all
  from 3(1) [OF a] have x: "processContentItem subItem ?d1 contentJson
      = processContentItem subItem ?d2 contentJson" .
  show ?case
  proof (cases "processContentItem subItem ?d1 contentJson")
    case (Inl err)
    with x have "processContentItem subItem ?d2 contentJson = Inl err" by simp
    with Inl show ?thesis by simp
  next
    case (Inr els)
    from 3(2) [OF Inr b] have y: "processSubItems rest ?d1 contentJson
      = processSubItems rest ?d2 contentJson" by simp
    from x Inr have "processContentItem subItem ?d2 contentJson = Inr els" by simp
    with Inr y show ?thesis by simp
  qed
qed

lemma skipped_off_today:
  "\<not> item_reads_today item \<Longrightarrow>
   skipped item (JObj ((''today'', x) # kvs)) = skipped item (JObj ((''today'', y) # kvs))"
proof -
  assume a: "\<not> item_reads_today item"
  then have "\<not> condition_reads_today (i_condition item)" by (cases item) simp
  from evaluateCondition_off_today [OF this, of x kvs y] show ?thesis
    by (cases "i_condition item") (simp_all add: skipped_def)
qed

lemma section_content_off_today:
  "\<not> list_ex item_reads_today items \<Longrightarrow>
   section_content items (JObj ((''today'', x) # kvs)) c =
   section_content items (JObj ((''today'', y) # kvs)) c"
proof (induction items)
  case Nil
  show ?case by simp
next
  case (Cons item rest)
  then have a: "\<not> item_reads_today item" and b: "\<not> list_ex item_reads_today rest" by simp_all
  from Cons.IH [OF b] skipped_off_today [OF a, of x kvs y]
    processContentItem_off_today [OF a, of x kvs c y]
  show ?case by (simp split: sum.splits)
qed

lemma section_heading_off_today:
  "\<not> (case h of None \<Rightarrow> False | Some hg \<Rightarrow> template_reads_today (h_text hg)) \<Longrightarrow>
   section_heading h (JObj ((''today'', x) # kvs)) c = section_heading h (JObj ((''today'', y) # kvs)) c"
  using renderTemplate_off_today [of _ x kvs _ y]
  by (cases h) (simp_all add: section_heading_def)

lemma docSections_off_today:
  "\<not> list_ex section_reads_today secs \<Longrightarrow>
   docSections secs (JObj ((''today'', x) # kvs)) c = docSections secs (JObj ((''today'', y) # kvs)) c"
proof (induction secs)
  case Nil
  show ?case by simp
next
  case (Cons s rest)
  then have s: "\<not> section_reads_today s" and r: "\<not> list_ex section_reads_today rest"
    by simp_all
  from s have a: "\<not> (case s_heading s of None \<Rightarrow> False | Some hg \<Rightarrow> template_reads_today (h_text hg))"
    and b: "\<not> list_ex item_reads_today (s_content s)"
    by (simp_all add: section_reads_today_def)
  from Cons.IH [OF r] section_heading_off_today [OF a, of x kvs c y]
    section_content_off_today [OF b, of x kvs c y]
  show ?case by (simp split: sum.splits)
qed

text \<open>
  Claim C9, as stated, fails: the same structure, data record and content library give
  two documents on two dates when a template reads \<open>today\<close>.
\<close>

theorem document_depends_on_the_date:
  "generateFromStructure ''2026-11-02'' (Some (one_section [paragraph_item (JStr ''Printed {{today}}'')]))
      (JObj []) []
     = Inr [[Paragraph (JStr ''Printed 2026-11-02'')]]
   \<and> generateFromStructure ''2026-11-03'' (Some (one_section [paragraph_item (JStr ''Printed {{today}}'')]))
      (JObj []) []
     = Inr [[Paragraph (JStr ''Printed 2026-11-03'')]]
   \<and> generateFromStructure ''2026-11-02'' (Some (one_section [paragraph_item (JStr ''Printed {{today}}'')]))
      (JObj []) []
     \<noteq> generateFromStructure ''2026-11-03'' (Some (one_section [paragraph_item (JStr ''Printed {{today}}'')]))
      (JObj []) []"
  by code_simp

text \<open>
  Claim C9, amended. The document is a function of the structure, the data record, the
  content library and the date of the call, which generation merges into the data record
  as \<open>today\<close>; there is no other hidden input. For a structure that does not read the
  date, in no placeholder, condition field or loop path, two calls with the same
  structure, data record and content library give the same result whatever their dates.
\<close>

theorem document_independent_of_unread_date:
  assumes "\<not> structure_reads_today st"
  shows "generateFromStructure t1 (Some st) userData contentJson =
         generateFromStructure t2 (Some st) userData contentJson"
proof (cases "sections st")
  case None
  then show ?thesis by (simp add: generateFromStructure_def)
next
  case (Some secs)
  with assms have n: "\<not> list_ex section_reads_today secs" by (simp add: structure_reads_today_def)
  show ?thesis
  proof (cases "spread userData")
    case (Inl e)
    with Some show ?thesis by (simp add: generateFromStructure_def enhancedUserData_def)
  next
    case (Inr kvs)
    from docSections_off_today [OF n, of "JStr t1" _ contentJson "JStr t2"] Some Inr
    show ?thesis by (simp add: generateFromStructure_def enhancedUserData_def)
  qed
qed

text \<open>
  The theorem at the structure of the end-to-end scenario, which does not read the date,
  on two dates.
\<close>

theorem document_independent_of_unread_date_witness:
  "\<not> structure_reads_today (report_structure ''{{boilerplate.intro}}'')
   \<and> generateFromStructure ''2026-11-02'' (Some (report_structure ''{{boilerplate.intro}}''))
        report_data report_content
     = generateFromStructure ''2031-05-17'' (Some (report_structure ''{{boilerplate.intro}}''))
        report_data report_content"
proof -
  have h: "\<not> structure_reads_today (report_structure ''{{boilerplate.intro}}'')" by code_simp
  from document_independent_of_unread_date [OF h, of "''2026-11-02''" report_data report_content "''2031-05-17''"] h
  show ?thesis by blast
qed

section \<open>Properties of validation\<close>























section \<open>The document against the preview\<close>














end
